theory Spec2Isabelle
  imports Complex_Main "HOL-Library.Multiset" "HOL-Library.Product_Lexorder"
begin

section \<open>Numbers\<close>

text \<open>
  The funding-rate service computes with JavaScript numbers, the binary64 numbers of
  IEEE 754. A number is modelled by the real it denotes, and \<open>NaN\<close>, which the code tests
  for with \<^verbatim>\<open>isNaN\<close> and with truthiness, as a value of its own. Every arithmetic
  operation of the code rounds its exact result to the nearest binary64 number, a tie
  going to the one whose significand is even; \<open>roundDouble\<close> is that rounding. The two
  infinities are not modelled: a result of magnitude \<open>2^1024\<close> or more, which the engine
  turns into an infinity, is kept as the rounded real.

  The binary exponent of a positive real \<open>x\<close> is the \<open>e\<close> with \<open>2^e \<le> x < 2^(e+1)\<close>. It
  is found by halving or doubling \<open>x\<close>; 1100 steps are enough for every exponent a
  binary64 number has, from \<open>-1074\<close> to \<open>1023\<close>.
\<close>

primrec halvings :: "nat \<Rightarrow> real \<Rightarrow> int" where
  "halvings 0 x = 0"
| "halvings (Suc n) x = (if x < 2 then 0 else 1 + halvings n (x / 2))"

primrec doublings :: "nat \<Rightarrow> real \<Rightarrow> int" where
  "doublings 0 x = 0"
| "doublings (Suc n) x = (if 1 \<le> x then 0 else doublings n (2 * x) - 1)"

definition exponent :: "real \<Rightarrow> int" where
  "exponent x = (if 1 \<le> x then halvings 1100 x else doublings 1100 x)"

definition pow2 :: "int \<Rightarrow> real" where
  "pow2 q = (if 0 \<le> q then 2 ^ nat q else 1 / 2 ^ nat (- q))"

text \<open>The integer nearest to \<open>m\<close>, the even one of the two when \<open>m\<close> lies halfway.\<close>

definition roundHalfEven :: "real \<Rightarrow> int" where
  "roundHalfEven m =
     (let f = \<lfloor>m\<rfloor>; d = m - of_int f
      in if d < 1 / 2 then f else if 1 / 2 < d then f + 1 else if even f then f else f + 1)"

text \<open>
  A binary64 number is a whole multiple of a power of two, its quantum, with a multiplier
  below \<open>2^53\<close>. The quantum of the result is \<open>2^(e - 52)\<close> for a real of exponent \<open>e\<close>,
  and not less than \<open>2^(-1074)\<close>, the quantum of the subnormal numbers.
\<close>

definition roundDouble :: "real \<Rightarrow> real" where
  "roundDouble x =
     (if x = 0 then 0
      else let q = max (exponent \<bar>x\<bar> - 52) (- 1074);
               r = roundHalfEven (\<bar>x\<bar> / pow2 q)
           in sgn x * of_int r * pow2 q)"

text \<open>The operators \<^verbatim>\<open>-\<close>, \<^verbatim>\<open>*\<close> and \<^verbatim>\<open>/\<close> on numbers that are not \<open>NaN\<close>.\<close>

definition numSubtract :: "real \<Rightarrow> real \<Rightarrow> real" where
  "numSubtract a b = roundDouble (a - b)"

definition numMultiply :: "real \<Rightarrow> real \<Rightarrow> real" where
  "numMultiply a b = roundDouble (a * b)"

definition numDivide :: "real \<Rightarrow> real \<Rightarrow> real" where
  "numDivide a b = roundDouble (a / b)"

text \<open>
  A field that holds a numeric text (\<^verbatim>\<open>currentRate\<close> is the text printed by
  \<^verbatim>\<open>toFixed(4)\<close>) or a number of a JSON payload is carried as the decimal number written
  there; the text that reads as no number, the empty text among them, is \<open>NaN\<close>.
  \<^verbatim>\<open>parseFloat\<close> turns what is written into the number the code computes with, and so
  does \<^verbatim>\<open>parseInt\<close> for a field carried as the integer its leading digits write, and
  the parser of JSON for a number of a payload. A decimal literal of the source is
  read the same way: \<^verbatim>\<open>0.005\<close> is \<open>roundDouble 0.005\<close>. A field that may be missing is
  an option, \<open>None\<close> standing for \<^verbatim>\<open>undefined\<close>.
\<close>

datatype number = NaN | Num real

fun parseFloat :: "number \<Rightarrow> number" where
  "parseFloat NaN = NaN"
| "parseFloat (Num x) = Num (roundDouble x)"

definition parseInt :: "number \<Rightarrow> number" where
  "parseInt = parseFloat"

definition jsonNumber :: "number \<Rightarrow> number" where
  "jsonNumber = parseFloat"

text \<open>Truthiness of a field holding a number: \<^verbatim>\<open>undefined\<close>, \<open>NaN\<close> and \<open>0\<close> are falsy.\<close>

fun truthy :: "number option \<Rightarrow> bool" where
  "truthy None = False"
| "truthy (Some NaN) = False"
| "truthy (Some (Num x)) = (x \<noteq> 0)"

text \<open>Every binary64 number is a whole multiple of \<open>2^(-1074)\<close>.\<close>

definition onGrid :: "real \<Rightarrow> bool" where
  "onGrid x \<longleftrightarrow> of_int \<lfloor>x * pow2 1074\<rfloor> = x * pow2 1074"

section \<open>Rate records\<close>

text \<open>
  One record type serves the rate objects before and after the grouping step of the
  detector: before it \<open>currentRate\<close> is the text an exchange normalizer printed and
  \<open>settlementInterval\<close> the number it computed (\<open>number option\<close>), after it they are
  numbers known not to be \<open>NaN\<close> (\<open>real\<close>). \<open>isHourly\<close> is read by the detector and
  written by no normalizer; \<open>nextFundingTime\<close> and \<open>fundingTime\<close> (milliseconds) are
  written by the OKX normalizer only.
\<close>

record ('c, 'i) rate_rec =
  symbol :: string
  exchange :: string
  currentRate :: 'c
  isSpecialInterval :: bool
  settlementInterval :: 'i
  isHourly :: bool
  nextFundingTime :: "real option"
  fundingTime :: "real option"

type_synonym rate = "(number option, number option) rate_rec"
type_synonym grouped_rate = "(real, real) rate_rec"

datatype opportunity_type = same_period | different_period

record opportunity =
  osymbol :: string
  otype :: opportunity_type
  longExchange :: string
  shortExchange :: string
  longRate :: real
  shortRate :: real
  rateDiff :: real
  settlementPeriod :: "real option"
  settlementPeriod1 :: "real option"
  settlementPeriod2 :: "real option"
  expectedProfit :: "real option"
  annualYield :: real

section \<open>The arbitrage detector\<close>

subsection \<open>Grouping by symbol\<close>

text \<open>
  \<^verbatim>\<open>groupedRates\<close> is a plain object used as a dictionary from symbol to array. Its own
  properties are modelled as an association list in the order in which the keys were
  created. A plain object also answers to the names of the members it inherits from
  \<^verbatim>\<open>Object.prototype\<close>: looked up under one of them it gives a function, or the
  prototype itself for \<^verbatim>\<open>__proto__\<close>, which is truthy and has no \<^verbatim>\<open>push\<close>.
\<close>

definition inheritedMembers :: "string list" where
  "inheritedMembers =
     [''constructor'', ''__defineGetter__'', ''__defineSetter__'', ''hasOwnProperty'',
      ''__lookupGetter__'', ''__lookupSetter__'', ''isPrototypeOf'', ''propertyIsEnumerable'',
      ''toString'', ''valueOf'', ''__proto__'', ''toLocaleString'']"

definition inheritedMember :: "string \<Rightarrow> bool" where
  "inheritedMember k \<longleftrightarrow> k \<in> set inheritedMembers"

datatype exception = TypeError

type_synonym groups = "(string \<times> grouped_rate list) list"

definition lookupGroup :: "groups \<Rightarrow> string \<Rightarrow> grouped_rate list" where
  "lookupGroup g k = (case map_of g k of None \<Rightarrow> [] | Some rs \<Rightarrow> rs)"

fun pushGroup :: "groups \<Rightarrow> string \<Rightarrow> grouped_rate \<Rightarrow> groups" where
  "pushGroup [] k r = []"
| "pushGroup ((k', rs) # g) k r =
     (if k' = k then (k', rs @ [r]) # g else (k', rs) # pushGroup g k r)"

text \<open>
  The interval a rate is grouped under:
  \<^verbatim>\<open>rate.settlementInterval || (rate.isHourly ? 1 : 8)\<close>.
\<close>

definition defaultedInterval :: "rate \<Rightarrow> real" where
  "defaultedInterval rate =
     (case settlementInterval rate of
        Some (Num x) \<Rightarrow> if x \<noteq> 0 then x else if isHourly rate then 1 else 8
      | _ \<Rightarrow> if isHourly rate then 1 else 8)"

text \<open>
  The object pushed on the array of the symbol: the rate with its \<open>currentRate\<close>
  replaced by the parsed number and its interval by the defaulted one.
\<close>

definition groupedEntry :: "rate \<Rightarrow> real \<Rightarrow> grouped_rate" where
  "groupedEntry rate c =
     \<lparr>symbol = symbol rate, exchange = exchange rate, currentRate = c,
      isSpecialInterval = isSpecialInterval rate, settlementInterval = defaultedInterval rate,
      isHourly = isHourly rate, nextFundingTime = nextFundingTime rate,
      fundingTime = fundingTime rate\<rparr>"

text \<open>
  The callback of \<^verbatim>\<open>rates.forEach\<close>. The array of the symbol is created, unless the
  lookup under the symbol is truthy already, before the rate is parsed, so a rate whose
  text is no number leaves an empty group behind. For a symbol that names an inherited
  member the lookup is truthy, no array is created, and the call of \<^verbatim>\<open>push\<close> throws.
\<close>

definition groupStep :: "rate \<Rightarrow> groups \<Rightarrow> exception + groups" where
  "groupStep rate groupedRates =
     (if symbol rate = [] \<or> exchange rate = [] \<or> currentRate rate = None then Inr groupedRates
      else
        let groupedRates' =
              (if map_of groupedRates (symbol rate) = None \<and> \<not> inheritedMember (symbol rate)
               then groupedRates @ [(symbol rate, [])] else groupedRates)
        in case parseFloat (case currentRate rate of Some written \<Rightarrow> written | None \<Rightarrow> NaN) of
             NaN \<Rightarrow> Inr groupedRates'
           | Num c \<Rightarrow>
               if inheritedMember (symbol rate) then Inl TypeError
               else Inr (pushGroup groupedRates' (symbol rate) (groupedEntry rate c)))"

text \<open>\<^verbatim>\<open>rates.forEach\<close>: the callback is run on the rates in order; an exception ends it.\<close>

fun forEachRate :: "rate list \<Rightarrow> groups \<Rightarrow> exception + groups" where
  "forEachRate [] groupedRates = Inr groupedRates"
| "forEachRate (rate # rates) groupedRates =
     (case groupStep rate groupedRates of
        Inl e \<Rightarrow> Inl e
      | Inr groupedRates' \<Rightarrow> forEachRate rates groupedRates')"

definition groupRates :: "rate list \<Rightarrow> exception + groups" where
  "groupRates rates = forEachRate rates []"

subsection \<open>The order of \<^verbatim>\<open>Object.keys\<close>\<close>

text \<open>
  \<^verbatim>\<open>Object.keys\<close> lists the keys that are array indices first, in ascending numeric
  order, and the other keys after them in the order of their creation.
\<close>

definition digitsVal :: "string \<Rightarrow> int" where
  "digitsVal s = foldl (\<lambda>n c. 10 * n + (of_char c - 48)) 0 s"

definition isArrayIndex :: "string \<Rightarrow> bool" where
  "isArrayIndex s \<longleftrightarrow>
     s \<noteq> [] \<and> list_all (\<lambda>c. c \<in> set ''0123456789'') s
     \<and> (hd s \<noteq> CHR ''0'' \<or> length s = 1) \<and> digitsVal s < 4294967295"

definition objectKeys :: "(string \<times> 'a) list \<Rightarrow> string list" where
  "objectKeys obj =
     sort_key digitsVal (filter isArrayIndex (map fst obj))
     @ filter (\<lambda>k. \<not> isArrayIndex k) (map fst obj)"

subsection \<open>One pair of rates\<close>

text \<open>The body of the inner iteration: the opportunity a pair \<open>rate1\<close>, \<open>rate2\<close> gives, if any.\<close>

definition pairOpportunity :: "string \<Rightarrow> grouped_rate \<Rightarrow> grouped_rate \<Rightarrow> opportunity option" where
  "pairOpportunity symb rate1 rate2 =
     (if settlementInterval rate1 \<noteq> settlementInterval rate2 then
        let shortPeriodRate =
              (if settlementInterval rate1 < settlementInterval rate2 then rate1 else rate2);
            longPeriodRate =
              (if settlementInterval rate1 < settlementInterval rate2 then rate2 else rate1)
        in if currentRate shortPeriodRate < 0 then
             let expectedProfit' = \<bar>currentRate shortPeriodRate\<bar>;
                 annualYield' =
                   numMultiply
                     (numMultiply expectedProfit' (numDivide 24 (settlementInterval shortPeriodRate)))
                     365
             in if expectedProfit' > roundDouble 0.005 then
                  Some \<lparr>osymbol = symb, otype = different_period,
                        longExchange = exchange shortPeriodRate,
                        shortExchange = exchange longPeriodRate,
                        longRate = currentRate shortPeriodRate,
                        shortRate = currentRate longPeriodRate,
                        rateDiff =
                          \<bar>numSubtract (currentRate shortPeriodRate) (currentRate longPeriodRate)\<bar>,
                        settlementPeriod = None,
                        settlementPeriod1 = Some (settlementInterval shortPeriodRate),
                        settlementPeriod2 = Some (settlementInterval longPeriodRate),
                        expectedProfit = Some expectedProfit',
                        annualYield = annualYield'\<rparr>
                else None
           else None
      else
        let rateDiff' = numSubtract (currentRate rate1) (currentRate rate2)
        in if \<bar>rateDiff'\<bar> < roundDouble 0.001 then None
           else
             let annualYield' =
                   numMultiply (numMultiply \<bar>rateDiff'\<bar> (numDivide 24 (settlementInterval rate1))) 365
             in if annualYield' > 1 then
                  Some \<lparr>osymbol = symb, otype = same_period,
                        longExchange = (if rateDiff' > 0 then exchange rate2 else exchange rate1),
                        shortExchange = (if rateDiff' > 0 then exchange rate1 else exchange rate2),
                        longRate = (if rateDiff' > 0 then currentRate rate2 else currentRate rate1),
                        shortRate = (if rateDiff' > 0 then currentRate rate1 else currentRate rate2),
                        rateDiff = \<bar>rateDiff'\<bar>,
                        settlementPeriod = Some (settlementInterval rate1),
                        settlementPeriod1 = None,
                        settlementPeriod2 = None,
                        expectedProfit = None,
                        annualYield = annualYield'\<rparr>
                else None)"

text \<open>
  The nested iteration over \<open>i < j\<close>: the first rate is paired with every later one, then the
  same for the rest.
\<close>

fun symbolOpportunities :: "string \<Rightarrow> grouped_rate list \<Rightarrow> opportunity list" where
  "symbolOpportunities symb [] = []"
| "symbolOpportunities symb (rate1 # rest) =
     List.map_filter (pairOpportunity symb rate1) rest @ symbolOpportunities symb rest"

subsection \<open>Ranking\<close>

text \<open>The comparator handed to \<^verbatim>\<open>sort\<close>.\<close>

definition compareOpportunities :: "opportunity \<Rightarrow> opportunity \<Rightarrow> real" where
  "compareOpportunities a b =
     (if otype a \<noteq> otype b then (if otype a = different_period then - 1 else 1)
      else numSubtract (annualYield b) (annualYield a))"

text \<open>
  \<^verbatim>\<open>Array.prototype.sort\<close> is stable, and the comparator is a consistent order on the
  opportunities the detector emits, so the array it leaves is the stable sorted
  arrangement. It is computed here by insertion from the right: an element goes before
  the first one it does not have to follow.
\<close>

fun insertOpportunity :: "opportunity \<Rightarrow> opportunity list \<Rightarrow> opportunity list" where
  "insertOpportunity a [] = [a]"
| "insertOpportunity a (b # bs) =
     (if compareOpportunities a b \<le> 0 then a # b # bs else b # insertOpportunity a bs)"

definition sortOpportunities :: "opportunity list \<Rightarrow> opportunity list" where
  "sortOpportunities opps = foldr insertOpportunity opps []"

subsection \<open>The detector\<close>

text \<open>The opportunities in the order in which the iteration over the keys pushes them.\<close>

definition emittedOpportunities :: "groups \<Rightarrow> opportunity list" where
  "emittedOpportunities groupedRates =
     concat (map (\<lambda>symb. symbolOpportunities symb (lookupGroup groupedRates symb))
                 (objectKeys groupedRates))"

definition calculateArbitrageOpportunities :: "rate list \<Rightarrow> exception + opportunity list" where
  "calculateArbitrageOpportunities rates =
     (case groupRates rates of
        Inl e \<Rightarrow> Inl e
      | Inr groupedRates \<Rightarrow> Inr (sortOpportunities (emittedOpportunities groupedRates)))"

subsection \<open>Notions used to state the properties of the detector\<close>

text \<open>
  A rate is accepted when it passes the guards of the grouping callback: a symbol, an
  exchange, and a \<open>currentRate\<close> that reads as a number. \<open>grouped\<close> is the entry
  that the callback pushes for an accepted rate.
\<close>

fun isNumber :: "number option \<Rightarrow> bool" where
  "isNumber (Some (Num c)) = True"
| "isNumber _ = False"

definition accepted :: "rate \<Rightarrow> bool" where
  "accepted rate \<longleftrightarrow>
     symbol rate \<noteq> [] \<and> exchange rate \<noteq> [] \<and> isNumber (currentRate rate)"

definition parsedRate :: "rate \<Rightarrow> real" where
  "parsedRate rate = (case currentRate rate of Some (Num c) \<Rightarrow> roundDouble c | _ \<Rightarrow> 0)"

definition grouped :: "rate \<Rightarrow> grouped_rate" where
  "grouped rate = groupedEntry rate (parsedRate rate)"

text \<open>
  A symbol as the data model of the service has it is a ticker in upper case: a text
  with no lower-case letter.
\<close>

definition upperCase :: "string \<Rightarrow> bool" where
  "upperCase s \<longleftrightarrow> list_all (\<lambda>c. c \<notin> set ''abcdefghijklmnopqrstuvwxyz'') s"


text \<open>The rates of the two worked scenarios: ETH on HyperLiquid and OKX, BTC on Binance and Bybit.\<close>

definition ethHyperLiquid :: rate where
  "ethHyperLiquid =
     \<lparr>symbol = ''ETH'', exchange = ''HyperLiquid'', currentRate = Some (Num (- 0.008)),
      isSpecialInterval = True, settlementInterval = Some (Num 1), isHourly = False,
      nextFundingTime = None, fundingTime = None\<rparr>"

definition ethOKX :: rate where
  "ethOKX =
     \<lparr>symbol = ''ETH'', exchange = ''OKX'', currentRate = Some (Num 0.002),
      isSpecialInterval = False, settlementInterval = Some (Num 8), isHourly = False,
      nextFundingTime = Some 28800000, fundingTime = Some 0\<rparr>"

definition btcBinance :: rate where
  "btcBinance =
     \<lparr>symbol = ''BTC'', exchange = ''Binance'', currentRate = Some (Num 0.01),
      isSpecialInterval = False, settlementInterval = Some (Num 8), isHourly = False,
      nextFundingTime = None, fundingTime = None\<rparr>"

definition btcBybit :: rate where
  "btcBybit =
     \<lparr>symbol = ''BTC'', exchange = ''Bybit'', currentRate = Some (Num (- 0.005)),
      isSpecialInterval = False, settlementInterval = Some (Num 8), isHourly = False,
      nextFundingTime = None, fundingTime = None\<rparr>"

definition ethGate :: rate where
  "ethGate =
     \<lparr>symbol = ''ETH'', exchange = ''Gate'', currentRate = Some (Num (- 0.02)),
      isSpecialInterval = True, settlementInterval = Some (Num 4), isHourly = False,
      nextFundingTime = None, fundingTime = None\<rparr>"

text \<open>A rate as a caller other than the normalizers may pass it: no interval, flagged hourly.\<close>

definition solHourly :: rate where
  "solHourly =
     \<lparr>symbol = ''SOL'', exchange = ''HyperLiquid'', currentRate = Some (Num (- 0.01)),
      isSpecialInterval = True, settlementInterval = None, isHourly = True,
      nextFundingTime = None, fundingTime = None\<rparr>"

definition solBinance :: rate where
  "solBinance =
     \<lparr>symbol = ''SOL'', exchange = ''Binance'', currentRate = Some (Num 0.01),
      isSpecialInterval = False, settlementInterval = Some (Num 0), isHourly = False,
      nextFundingTime = None, fundingTime = None\<rparr>"

text \<open>The ranked list the detector returns for the five BTC and ETH rates above.\<close>

definition rankedOutput :: "opportunity list" where
  "rankedOutput =
     [\<lparr>osymbol = ''ETH'', otype = different_period, longExchange = ''HyperLiquid'',
       shortExchange = ''OKX'', longRate = roundDouble (- 0.008), shortRate = roundDouble 0.002,
       rateDiff = roundDouble 0.01,
       settlementPeriod = None, settlementPeriod1 = Some 1, settlementPeriod2 = Some 8,
       expectedProfit = Some (roundDouble 0.008), annualYield = roundDouble 70.08\<rparr>,
      \<lparr>osymbol = ''ETH'', otype = different_period, longExchange = ''HyperLiquid'',
       shortExchange = ''Gate'', longRate = roundDouble (- 0.008), shortRate = roundDouble (- 0.02),
       rateDiff = roundDouble 0.012,
       settlementPeriod = None, settlementPeriod1 = Some 1, settlementPeriod2 = Some 4,
       expectedProfit = Some (roundDouble 0.008), annualYield = roundDouble 70.08\<rparr>,
      \<lparr>osymbol = ''ETH'', otype = different_period, longExchange = ''Gate'',
       shortExchange = ''OKX'', longRate = roundDouble (- 0.02), shortRate = roundDouble 0.002,
       rateDiff = roundDouble 0.022,
       settlementPeriod = None, settlementPeriod1 = Some 4, settlementPeriod2 = Some 8,
       expectedProfit = Some (roundDouble 0.02), annualYield = roundDouble 43.8\<rparr>,
      \<lparr>osymbol = ''BTC'', otype = same_period, longExchange = ''Bybit'',
       shortExchange = ''Binance'', longRate = roundDouble (- 0.005), shortRate = roundDouble 0.01,
       rateDiff = roundDouble 0.015,
       settlementPeriod = Some 8, settlementPeriod1 = None, settlementPeriod2 = None,
       expectedProfit = None, annualYield = roundDouble 16.425\<rparr>]"

text \<open>
  Two rates whose difference is \<open>0.001\<close> as decimals and less as numbers, two rates at
  an interval that gives their difference a yield of 1 as decimals and more as numbers,
  two rates at an interval that gives their difference a yield of 1 as numbers, and a
  rate of an asset that has the name of an inherited member.
\<close>

definition dogeBinance :: rate where
  "dogeBinance =
     \<lparr>symbol = ''DOGE'', exchange = ''Binance'', currentRate = Some (Num 0.011),
      isSpecialInterval = False, settlementInterval = Some (Num 8), isHourly = False,
      nextFundingTime = None, fundingTime = None\<rparr>"

definition dogeBybit :: rate where
  "dogeBybit =
     \<lparr>symbol = ''DOGE'', exchange = ''Bybit'', currentRate = Some (Num 0.01),
      isSpecialInterval = False, settlementInterval = Some (Num 8), isHourly = False,
      nextFundingTime = None, fundingTime = None\<rparr>"

definition ltcOKX :: rate where
  "ltcOKX =
     \<lparr>symbol = ''LTC'', exchange = ''OKX'', currentRate = Some (Num 0.01),
      isSpecialInterval = True, settlementInterval = Some (Num (roundDouble 87.6)),
      isHourly = False, nextFundingTime = None, fundingTime = None\<rparr>"

definition ltcGate :: rate where
  "ltcGate =
     \<lparr>symbol = ''LTC'', exchange = ''Gate'', currentRate = Some (Num 0),
      isSpecialInterval = True, settlementInterval = Some (Num (roundDouble 87.6)),
      isHourly = False, nextFundingTime = None, fundingTime = None\<rparr>"

definition adaOKX :: rate where
  "adaOKX =
     \<lparr>symbol = ''ADA'', exchange = ''OKX'', currentRate = Some (Num 0.0125),
      isSpecialInterval = True, settlementInterval = Some (Num 109.5),
      isHourly = False, nextFundingTime = None, fundingTime = None\<rparr>"

definition adaGate :: rate where
  "adaGate =
     \<lparr>symbol = ''ADA'', exchange = ''Gate'', currentRate = Some (Num 0),
      isSpecialInterval = True, settlementInterval = Some (Num 109.5),
      isHourly = False, nextFundingTime = None, fundingTime = None\<rparr>"

definition constructorRate :: rate where
  "constructorRate =
     \<lparr>symbol = ''constructor'', exchange = ''HyperLiquid'', currentRate = Some (Num 0.01),
      isSpecialInterval = True, settlementInterval = Some (Num 1), isHourly = False,
      nextFundingTime = None, fundingTime = None\<rparr>"

section \<open>The exchange normalizers\<close>

subsection \<open>Texts and numbers\<close>

text \<open>\<^verbatim>\<open>s.endsWith(t)\<close>, \<^verbatim>\<open>s.replace(pat, rep)\<close> for a text pattern (the first occurrence
  only) and \<^verbatim>\<open>s.split('-')[0]\<close>.\<close>

definition endsWith :: "string \<Rightarrow> string \<Rightarrow> bool" where
  "endsWith s t \<longleftrightarrow> length t \<le> length s \<and> drop (length s - length t) s = t"

fun replaceFirst :: "string \<Rightarrow> string \<Rightarrow> string \<Rightarrow> string" where
  "replaceFirst [] pat rep = (if pat = [] then rep else [])"
| "replaceFirst (c # cs) pat rep =
     (if take (length pat) (c # cs) = pat then rep @ drop (length pat) (c # cs)
      else c # replaceFirst cs pat rep)"

definition beforeDash :: "string \<Rightarrow> string" where
  "beforeDash s = takeWhile (\<lambda>c. c \<noteq> CHR ''-'') s"

text \<open>Multiplication and division by a constant; \<open>NaN\<close> is contagious.\<close>

fun numTimes :: "number \<Rightarrow> real \<Rightarrow> number" where
  "numTimes NaN k = NaN"
| "numTimes (Num x) k = Num (numMultiply x k)"

fun numDividedBy :: "number \<Rightarrow> real \<Rightarrow> number" where
  "numDividedBy NaN k = NaN"
| "numDividedBy (Num x) k = Num (numDivide x k)"

text \<open>\<^verbatim>\<open>n || d\<close> for a number \<open>n\<close> and a default \<open>d\<close>.\<close>

fun orElse :: "number \<Rightarrow> real \<Rightarrow> real" where
  "orElse NaN d = d"
| "orElse (Num x) d = (if x \<noteq> 0 then x else d)"

text \<open>
  \<^verbatim>\<open>x.toFixed(4)\<close>, as the decimal number its text writes: the multiple of \<open>1/10000\<close>
  nearest to the number \<open>x\<close>, a tie going away from zero; from \<open>10^21\<close> on the text
  writes a decimal that reads back as \<open>x\<close>, carried as \<open>x\<close>; \<open>NaN\<close> prints as a text
  that reads as \<open>NaN\<close>.
\<close>

fun toFixed4 :: "number \<Rightarrow> number" where
  "toFixed4 NaN = NaN"
| "toFixed4 (Num x) =
     (if \<bar>x\<bar> \<ge> 10 ^ 21 then Num x
      else if x < 0 then Num (- (of_int \<lfloor>- x * 10000 + 1 / 2\<rfloor> / 10000))
      else Num (of_int \<lfloor>x * 10000 + 1 / 2\<rfloor> / 10000))"

text \<open>\<^verbatim>\<open>new Date(t).toISOString()\<close> throws for a time that is no number or out of range.\<close>

fun validTime :: "number \<Rightarrow> bool" where
  "validTime NaN = False"
| "validTime (Num t) = (\<bar>t\<bar> \<le> 8640000000000000)"

subsection \<open>The payloads\<close>

text \<open>
  A payload is typed by the way the code reads it. Its entries are objects with the
  fields the code reads, the names among them texts; a field read with \<^verbatim>\<open>parseFloat\<close>
  or \<^verbatim>\<open>parseInt\<close> is the \<open>number\<close> written in it; a field that is also tested for
  truthiness is a \<open>number option\<close>, \<open>None\<close> when it is missing or the empty text.

  A list that the code filters or iterates outside every \<^verbatim>\<open>try\<close> block of its own is
  \<open>NoData\<close> when the fetch failed (\<^verbatim>\<open>null\<close>) or the place of the list holds a falsy
  value, \<open>Malformed\<close> when it holds a value on which that iteration throws, and the
  array of its entries otherwise. The iteration throws on a value that is no array, on an
  array with an entry that is no object and, where the callback asks for the end of the
  symbol of every entry, as it does for the rates of Binance and Bybit, on an array with
  an entry that has no symbol. The payload of Gate is tested with \<^verbatim>\<open>Array.isArray\<close>
  and read inside a \<^verbatim>\<open>try\<close> block: for it \<open>Malformed\<close> is a value that is no array,
  and it is passed over. A list that is read inside a \<^verbatim>\<open>try\<close> block whose handler
  leaves the rates of the exchange empty is an option: \<open>None\<close> when the fetch failed, the
  payload has no such list or reading it throws.
\<close>

datatype 'a array_response = NoData | Malformed | Array "'a list"

record binance_item =
  bn_symbol :: string
  lastFundingRate :: number

record binance_info =
  info_symbol :: string
  fundingIntervalHours :: number

record bybit_item =
  bb_symbol :: string
  bb_fundingRate :: "number option"

record bybit_instrument =
  ins_symbol :: string
  fundingInterval :: number

record bitget_item =
  bg_symbol :: string
  bg_fundingRate :: "number option"

record bitget_contract =
  ct_symbol :: string
  fundInterval :: number

record okx_ticker =
  tk_instId :: string

record okx_funding =
  instId :: string
  okx_fundingRate :: number
  okx_nextFundingTime :: number
  okx_fundingTime :: number

record hl_asset =
  hl_name :: string

record hl_context =
  funding :: number

record gate_contract =
  gate_name :: string
  funding_rate :: "number option"
  funding_interval :: number

text \<open>
  The ten responses of \<^verbatim>\<open>Promise.all\<close>, and the answer of the per-instrument funding-rate
  call of OKX as a function of the instrument: \<open>None\<close> when that call failed or its
  payload has no first entry.
\<close>

record responses =
  binanceRatesData :: "binance_item array_response"
  binanceFundingInfoData :: "binance_info array_response"
  bybitRatesData :: "bybit_item array_response"
  bybitInstrumentsData :: "bybit_instrument array_response"
  bitgetRatesData :: "bitget_item array_response"
  bitgetContractsData :: "bitget_contract array_response"
  okxTickersData :: "okx_ticker list option"
  okxInstrumentsData :: "unit option"
  hyperliquidData :: "(hl_asset list \<times> hl_context list) option"
  gateContractsData :: "gate_contract array_response"
  okxFundingRate :: "string \<Rightarrow> okx_funding option"

subsection \<open>Interval tables\<close>

text \<open>
  The three dictionaries from symbol to interval; a later entry overwrites an earlier
  one. They are plain objects too. Binance and Bybit look them up under names that end
  in \<^verbatim>\<open>USDT\<close>, which no inherited member has; Bitget looks its table up under any
  name, and the tables are modelled by their own properties only.
\<close>

definition binanceIntervals :: "binance_info list \<Rightarrow> (string \<rightharpoonup> real)" where
  "binanceIntervals infos =
     fold (\<lambda>info m. m(info_symbol info \<mapsto> orElse (parseInt (fundingIntervalHours info)) 8)) infos Map.empty"

definition bybitIntervals :: "bybit_instrument list \<Rightarrow> (string \<rightharpoonup> real)" where
  "bybitIntervals instruments =
     fold (\<lambda>instrument m.
             m(ins_symbol instrument \<mapsto>
                 numDivide (orElse (parseInt (fundingInterval instrument)) 480) 60))
          instruments Map.empty"

definition bitgetIntervals :: "bitget_contract list \<Rightarrow> (string \<rightharpoonup> real)" where
  "bitgetIntervals contracts =
     fold (\<lambda>contract m. m(ct_symbol contract \<mapsto> orElse (parseInt (fundInterval contract)) 8)) contracts Map.empty"

text \<open>\<^verbatim>\<open>intervals[symbol] || 8\<close>.\<close>

definition intervalOf :: "(string \<rightharpoonup> real) \<Rightarrow> string \<Rightarrow> real" where
  "intervalOf intervals s = (case intervals s of None \<Rightarrow> 8 | Some v \<Rightarrow> if v \<noteq> 0 then v else 8)"

subsection \<open>The six normalizers\<close>

text \<open>The object literal the Binance, Bybit, Bitget, Gate and HyperLiquid normalizers return.\<close>

definition rateRecord :: "string \<Rightarrow> string \<Rightarrow> number \<Rightarrow> bool \<Rightarrow> real \<Rightarrow> rate" where
  "rateRecord s e r special interval =
     \<lparr>symbol = s, exchange = e, currentRate = Some r, isSpecialInterval = special,
      settlementInterval = Some (Num interval), isHourly = False,
      nextFundingTime = None, fundingTime = None\<rparr>"

definition binanceRates :: "binance_item list \<Rightarrow> (string \<rightharpoonup> real) \<Rightarrow> rate list" where
  "binanceRates items intervals =
     map (\<lambda>item.
            let interval = intervalOf intervals (bn_symbol item)
            in rateRecord (replaceFirst (bn_symbol item) ''USDT'' '''') ''Binance''
                 (toFixed4 (numTimes (parseFloat (lastFundingRate item)) 100)) (interval \<noteq> 8) interval)
         (filter (\<lambda>item. endsWith (bn_symbol item) ''USDT'') items)"

text \<open>
  HyperLiquid: the assets are matched with the contexts by index. A context missing for
  an asset throws, and the handler of the exception leaves the list empty.
\<close>

definition hyperliquidRates :: "hl_asset list \<times> hl_context list \<Rightarrow> rate list" where
  "hyperliquidRates d =
     (case d of (universe, assetContexts) \<Rightarrow>
        if length assetContexts < length universe then []
        else map (\<lambda>(asset, assetData).
                    rateRecord (hl_name asset) ''HyperLiquid''
                      (toFixed4 (numTimes (parseFloat (funding assetData)) 100)) True 1)
                 (zip universe assetContexts))"

definition bybitRates :: "bybit_item list \<Rightarrow> (string \<rightharpoonup> real) \<Rightarrow> rate list" where
  "bybitRates items intervals =
     map (\<lambda>item.
            let interval = intervalOf intervals (bb_symbol item)
            in rateRecord (replaceFirst (bb_symbol item) ''USDT'' '''') ''Bybit''
                 (toFixed4 (numTimes (parseFloat (case bb_fundingRate item of Some r \<Rightarrow> r | None \<Rightarrow> NaN)) 100))
                 (interval \<noteq> 8) interval)
         (filter (\<lambda>item. endsWith (bb_symbol item) ''USDT'' \<and> bb_fundingRate item \<noteq> None) items)"

definition bitgetRates :: "bitget_item list \<Rightarrow> (string \<rightharpoonup> real) \<Rightarrow> rate list" where
  "bitgetRates items intervals =
     map (\<lambda>item.
            let symbol' = replaceFirst (bg_symbol item) ''USDT'' '''';
                interval = intervalOf intervals (bg_symbol item)
            in rateRecord symbol' ''Bitget''
                 (toFixed4 (numTimes (parseFloat (case bg_fundingRate item of Some r \<Rightarrow> r | None \<Rightarrow> NaN)) 100))
                 (interval \<noteq> 8) interval)
         (filter (\<lambda>item. bg_symbol item \<noteq> [] \<and> bg_fundingRate item \<noteq> None) items)"

text \<open>
  OKX. The instruments are taken from the tickers; their funding rates are fetched
  fifty at a time, and the answers that arrived are appended batch after batch.
\<close>

definition okxUsdtContracts :: "okx_ticker list \<Rightarrow> string list" where
  "okxUsdtContracts tickers =
     map tk_instId
       (filter (\<lambda>item. tk_instId item \<noteq> [] \<and> endsWith (tk_instId item) ''-USDT-SWAP'') tickers)"

function okxFundingRatesData :: "(string \<Rightarrow> okx_funding option) \<Rightarrow> string list \<Rightarrow> okx_funding list" where
  "okxFundingRatesData fetch contracts =
     (if contracts = [] then []
      else List.map_filter fetch (take 50 contracts) @ okxFundingRatesData fetch (drop 50 contracts))"
  by pat_completeness auto
termination
  by (relation "measure (\<lambda>(fetch, contracts). length contracts)") auto

text \<open>
  One answer of OKX: \<open>None\<close> where the callback returns \<^verbatim>\<open>null\<close>, which it also does
  when printing one of the two times throws.
\<close>

definition okxRate :: "okx_funding \<Rightarrow> rate option" where
  "okxRate item =
     (let symbol' = beforeDash (instId item);
          fundingRate = parseFloat (okx_fundingRate item)
      in if instId item = [] \<or> fundingRate = NaN \<or> fundingRate = Num 0 then None
         else
           let nextFundingTime' = parseInt (okx_nextFundingTime item);
               currentFundingTime = parseInt (okx_fundingTime item)
           in case (nextFundingTime', currentFundingTime) of
                (Num n, Num c) \<Rightarrow>
                  let interval = numDivide (numSubtract n c) (1000 * 60 * 60)
                  in if validTime nextFundingTime' \<and> validTime currentFundingTime then
                       Some \<lparr>symbol = symbol', exchange = ''OKX'',
                             currentRate = Some (toFixed4 (numTimes fundingRate 100)),
                             isSpecialInterval = (interval \<noteq> 8),
                             settlementInterval = Some (Num interval), isHourly = False,
                             nextFundingTime = Some n, fundingTime = Some c\<rparr>
                     else None
              | _ \<Rightarrow> None)"

definition okxRates :: "okx_ticker list \<Rightarrow> (string \<Rightarrow> okx_funding option) \<Rightarrow> rate list" where
  "okxRates tickers fetch =
     List.map_filter okxRate (okxFundingRatesData fetch (okxUsdtContracts tickers))"

definition gateRates :: "gate_contract list \<Rightarrow> rate list" where
  "gateRates contracts =
     List.map_filter
       (\<lambda>contract.
          case funding_rate contract of
            None \<Rightarrow> None
          | Some r \<Rightarrow>
              let symbol' = replaceFirst (gate_name contract) ''_USDT'' '''';
                  interval = orElse (numDividedBy (jsonNumber (funding_interval contract)) 3600) 8
              in Some (rateRecord symbol' ''Gate'' (toFixed4 (numTimes (parseFloat r) 100))
                         (interval \<noteq> 8) interval))
       (filter (\<lambda>contract. gate_name contract \<noteq> [] \<and> endsWith (gate_name contract) ''_USDT'')
               contracts)"

section \<open>The aggregator\<close>

text \<open>The filter of the merged list: a \<open>currentRate\<close> that is truthy, reads as a number and
  reads as a number other than zero. A text that reads as a number is not empty, so the
  test of truthiness adds nothing for a text.\<close>

definition validRate :: "rate \<Rightarrow> bool" where
  "validRate item \<longleftrightarrow>
     (case currentRate item of
        Some written \<Rightarrow> (case parseFloat written of Num c \<Rightarrow> c \<noteq> 0 | NaN \<Rightarrow> False)
      | None \<Rightarrow> False)"

text \<open>The six lists of a refresh, in the order in which they are merged.\<close>

definition normalizedRates :: "responses \<Rightarrow> rate list list" where
  "normalizedRates resp =
     [case binanceRatesData resp of
        Array items \<Rightarrow>
          binanceRates items
            (case binanceFundingInfoData resp of Array infos \<Rightarrow> binanceIntervals infos
             | _ \<Rightarrow> Map.empty)
      | _ \<Rightarrow> [],
      case bybitRatesData resp of
        Array items \<Rightarrow>
          bybitRates items
            (case bybitInstrumentsData resp of Array l \<Rightarrow> bybitIntervals l | _ \<Rightarrow> Map.empty)
      | _ \<Rightarrow> [],
      case bitgetRatesData resp of
        Array items \<Rightarrow>
          bitgetRates items
            (case bitgetContractsData resp of Array l \<Rightarrow> bitgetIntervals l | _ \<Rightarrow> Map.empty)
      | _ \<Rightarrow> [],
      case okxTickersData resp of
        Some tickers \<Rightarrow> okxRates tickers (okxFundingRate resp)
      | None \<Rightarrow> [],
      case hyperliquidData resp of Some d \<Rightarrow> hyperliquidRates d | None \<Rightarrow> [],
      case gateContractsData resp of Array contracts \<Rightarrow> gateRates contracts | _ \<Rightarrow> []]"

definition allRates :: "responses \<Rightarrow> rate list" where
  "allRates resp = filter validRate (concat (normalizedRates resp))"

text \<open>
  What \<^verbatim>\<open>fetchAllExchangeData\<close> returns, and what the handler caches and sends. A field a
  result does not have is \<open>None\<close>.
\<close>

record debug_counts =
  bitgetCount :: nat
  binanceCount :: nat
  bybitCount :: nat
  okxCount :: nat
  hyperliquidCount :: nat
  gateCount :: nat
  totalCount :: nat

text \<open>The two error messages: that of a caught exception, and the fixed text of the handler.\<close>

datatype error_message = ExceptionMessage | FundingDataFailed

record result =
  success :: bool
  data :: "rate list option"
  arbitrageOpportunities :: "opportunity list option"
  debug :: "debug_counts option"
  lastUpdate :: "int option"
  error :: "error_message option"

text \<open>
  The lists of Binance, Bybit and Bitget are filtered and iterated outside every
  \<^verbatim>\<open>try\<close> block but the outermost: an exception there ends the refresh.
\<close>

definition iterationThrows :: "responses \<Rightarrow> bool" where
  "iterationThrows resp \<longleftrightarrow>
     binanceFundingInfoData resp = Malformed \<or> bybitInstrumentsData resp = Malformed
     \<or> binanceRatesData resp = Malformed \<or> bitgetContractsData resp = Malformed
     \<or> bybitRatesData resp = Malformed \<or> bitgetRatesData resp = Malformed"

text \<open>What the outermost handler returns for the exception it caught.\<close>

definition caughtResult :: result where
  "caughtResult =
     \<lparr>success = False, data = Some [], arbitrageOpportunities = None, debug = None,
      lastUpdate = None, error = Some ExceptionMessage\<rparr>"

text \<open>An exception of the detector is caught by the outermost handler as well.\<close>

definition fetchAllExchangeData :: "responses \<Rightarrow> result" where
  "fetchAllExchangeData resp =
     (if iterationThrows resp then caughtResult
      else
        let lists = normalizedRates resp;
            allRates' = allRates resp
        in case calculateArbitrageOpportunities allRates' of
             Inl e \<Rightarrow> caughtResult
           | Inr arbitrageOpportunities' \<Rightarrow>
               \<lparr>success = True, data = Some allRates',
                arbitrageOpportunities = Some arbitrageOpportunities',
                debug = Some \<lparr>bitgetCount = length (lists ! 2), binanceCount = length (lists ! 0),
                              bybitCount = length (lists ! 1), okxCount = length (lists ! 3),
                              hyperliquidCount = length (lists ! 4), gateCount = length (lists ! 5),
                              totalCount = length allRates'\<rparr>,
                lastUpdate = None, error = None\<rparr>)"

text \<open>The flag of a rate agrees with its interval: \<^verbatim>\<open>isSpecialInterval == (settlementInterval != 8)\<close>.\<close>

definition special_ok :: "rate \<Rightarrow> bool" where
  "special_ok r \<longleftrightarrow> (isSpecialInterval r \<longleftrightarrow> settlementInterval r \<noteq> Some (Num 8))"

section \<open>The snapshot cache and its entry points\<close>

text \<open>
  The module of the pull endpoint keeps \<^verbatim>\<open>cachedData\<close> and \<^verbatim>\<open>lastCacheTime\<close>; times are
  milliseconds. The handler and the timer callback are asynchronous functions with one
  point of suspension that matters to the cache, the wait for \<^verbatim>\<open>fetchAllExchangeData\<close>:
  each is modelled by what it does after that wait (\<open>handlerResume\<close>,
  \<open>broadcastResume\<close>), and run to completion by \<open>handler\<close> and \<open>broadcastData\<close>.
\<close>

definition CACHE_DURATION :: int where
  "CACHE_DURATION = 60000"

record server =
  cachedData :: "result option"
  lastCacheTime :: int

definition initialServer :: server where
  "initialServer = \<lparr>cachedData = None, lastCacheTime = 0\<rparr>"

record http_response =
  status :: nat
  body :: result

text \<open>The test of the handler: \<^verbatim>\<open>cachedData && currentTime - lastCacheTime < CACHE_DURATION\<close>.\<close>

definition cacheFresh :: "'a server_scheme \<Rightarrow> int \<Rightarrow> bool" where
  "cacheFresh s currentTime \<longleftrightarrow>
     cachedData s \<noteq> None \<and> currentTime - lastCacheTime s < CACHE_DURATION"

text \<open>The object the handler builds of the rates, caches and sends.\<close>

definition snapshot :: "rate list \<Rightarrow> opportunity list \<Rightarrow> int \<Rightarrow> result" where
  "snapshot d arbitrageOpportunities' now =
     \<lparr>success = True, data = Some d, arbitrageOpportunities = Some arbitrageOpportunities',
      debug = None, lastUpdate = Some now, error = None\<rparr>"

definition failureBody :: result where
  "failureBody =
     \<lparr>success = False, data = None, arbitrageOpportunities = None, debug = None,
      lastUpdate = None, error = Some FundingDataFailed\<rparr>"

text \<open>What the handler sends for an exception it caught.\<close>

definition exceptionBody :: result where
  "exceptionBody =
     \<lparr>success = False, data = None, arbitrageOpportunities = None, debug = None,
      lastUpdate = None, error = Some ExceptionMessage\<rparr>"

text \<open>
  The handler once the rates have arrived; \<open>currentTime\<close> was read when the request
  came in, \<open>now\<close> is the time stamped on the result. The test is
  \<^verbatim>\<open>!rates.success || !Array.isArray(rates.data)\<close>. The handler runs the detector on
  the rates again; an exception of the detector is caught and the cache left alone.
\<close>

definition handlerResume ::
  "'a server_scheme \<Rightarrow> int \<Rightarrow> result \<Rightarrow> int \<Rightarrow> http_response \<times> 'a server_scheme" where
  "handlerResume s currentTime rates now =
     (case data rates of
        Some d \<Rightarrow>
          if \<not> success rates then (\<lparr>status = 500, body = failureBody\<rparr>, s)
          else
            (case calculateArbitrageOpportunities d of
               Inl e \<Rightarrow> (\<lparr>status = 500, body = exceptionBody\<rparr>, s)
             | Inr arbitrageOpportunities' \<Rightarrow>
                 let result = snapshot d arbitrageOpportunities' now
                 in (\<lparr>status = 200, body = result\<rparr>,
                     s\<lparr>cachedData := Some result, lastCacheTime := currentTime\<rparr>))
      | None \<Rightarrow> (\<lparr>status = 500, body = failureBody\<rparr>, s))"

definition handler ::
  "'a server_scheme \<Rightarrow> int \<Rightarrow> responses \<Rightarrow> int \<Rightarrow> http_response \<times> 'a server_scheme" where
  "handler s currentTime resp now =
     (case cachedData s of
        Some cached \<Rightarrow>
          if currentTime - lastCacheTime s < CACHE_DURATION
          then (\<lparr>status = 200, body = cached\<rparr>, s)
          else handlerResume s currentTime (fetchAllExchangeData resp) now
      | None \<Rightarrow> handlerResume s currentTime (fetchAllExchangeData resp) now)"

text \<open>
  The timer callback once the rates have arrived: it stores whatever arrived, stamps the
  cache with the time of arrival and emits the data to every client.
\<close>

definition broadcastResume :: "'a server_scheme \<Rightarrow> result \<Rightarrow> int \<Rightarrow> result \<times> 'a server_scheme" where
  "broadcastResume s d now =
     (d\<lparr>lastUpdate := Some now\<rparr>, s\<lparr>cachedData := Some d, lastCacheTime := now\<rparr>)"

definition broadcastData :: "'a server_scheme \<Rightarrow> responses \<Rightarrow> int \<Rightarrow> result \<times> 'a server_scheme" where
  "broadcastData s resp now = broadcastResume s (fetchAllExchangeData resp) now"

subsection \<open>The socket endpoint\<close>

text \<open>
  The module of the socket endpoint keeps a cache of its own, of the same shape, and
  refreshes it by a request to the pull endpoint. Its handler of \<^verbatim>\<open>get-funding-rates\<close>
  reads the clock (\<open>currentTime\<close>), and when it calls the pull endpoint that one reads
  the clock again (\<open>apiTime\<close>, \<open>apiNow\<close>); \<open>emitTime\<close> is stamped on what is sent.
\<close>

datatype emitted = FundingRates result | ErrorEvent

text \<open>The refresh of the socket cache: a request to the pull endpoint; an answer that is
  not OK throws, the cache is left alone and an error event is sent.\<close>

definition socketRefresh ::
  "server \<Rightarrow> server \<Rightarrow> int \<Rightarrow> int \<Rightarrow> responses \<Rightarrow> int \<Rightarrow> int \<Rightarrow> emitted \<times> server \<times> server" where
  "socketRefresh sock api currentTime apiTime resp apiNow emitTime =
     (case handler api apiTime resp apiNow of
        (response, api') \<Rightarrow>
          if status response = 200 then
            (FundingRates ((body response)\<lparr>lastUpdate := Some emitTime\<rparr>),
             sock\<lparr>cachedData := Some (body response), lastCacheTime := currentTime\<rparr>, api')
          else (ErrorEvent, sock, api'))"

text \<open>The test of the socket handler:
  \<^verbatim>\<open>!cachedData || currentTime - lastCacheTime > CACHE_DURATION\<close>.\<close>

definition getFundingRates ::
  "server \<Rightarrow> server \<Rightarrow> int \<Rightarrow> int \<Rightarrow> responses \<Rightarrow> int \<Rightarrow> int \<Rightarrow> emitted \<times> server \<times> server" where
  "getFundingRates sock api currentTime apiTime resp apiNow emitTime =
     (case cachedData sock of
        None \<Rightarrow> socketRefresh sock api currentTime apiTime resp apiNow emitTime
      | Some cached \<Rightarrow>
          if currentTime - lastCacheTime sock > CACHE_DURATION
          then socketRefresh sock api currentTime apiTime resp apiNow emitTime
          else (FundingRates (cached\<lparr>lastUpdate := Some emitTime\<rparr>), sock, api))"

subsection \<open>Invocations in flight\<close>

text \<open>
  Requests and timer ticks arrive while earlier invocations wait for their rates. An
  invocation runs without interruption up to its wait and again from the arrival of the
  rates to its end, so the server is a machine over three events: a request arrives, the
  timer fires, the rates of the \<open>k\<close>-th waiting invocation arrive. \<open>inFlight\<close> lists the
  waiting invocations, \<open>upstreamCycles\<close> counts the calls of
  \<^verbatim>\<open>fetchAllExchangeData\<close> made so far.
\<close>

datatype pending = HandlerCall int | BroadcastCall

record machine = server +
  inFlight :: "pending list"
  upstreamCycles :: nat

definition initialMachine :: machine where
  "initialMachine = \<lparr>cachedData = None, lastCacheTime = 0, inFlight = [], upstreamCycles = 0\<rparr>"

datatype event = Request int | Timer | Resolve nat responses int

fun step :: "machine \<Rightarrow> event \<Rightarrow> machine" where
  "step m (Request currentTime) =
     (if cacheFresh m currentTime then m
      else m\<lparr>inFlight := inFlight m @ [HandlerCall currentTime],
              upstreamCycles := upstreamCycles m + 1\<rparr>)"
| "step m Timer =
     m\<lparr>inFlight := inFlight m @ [BroadcastCall], upstreamCycles := upstreamCycles m + 1\<rparr>"
| "step m (Resolve k resp now) =
     (if k < length (inFlight m) then
        let m' = m\<lparr>inFlight := take k (inFlight m) @ drop (Suc k) (inFlight m)\<rparr>
        in case inFlight m ! k of
             HandlerCall currentTime \<Rightarrow>
               snd (handlerResume m' currentTime (fetchAllExchangeData resp) now)
           | BroadcastCall \<Rightarrow> snd (broadcastResume m' (fetchAllExchangeData resp) now)
      else m)"

definition run :: "machine \<Rightarrow> event list \<Rightarrow> machine" where
  "run m events = foldl step m events"

section \<open>Worked inputs\<close>

text \<open>A refresh in which every fetch failed.\<close>

definition noResponses :: responses where
  "noResponses =
     \<lparr>binanceRatesData = NoData, binanceFundingInfoData = NoData, bybitRatesData = NoData,
      bybitInstrumentsData = NoData, bitgetRatesData = NoData, bitgetContractsData = NoData,
      okxTickersData = None, okxInstrumentsData = None, hyperliquidData = None,
      gateContractsData = NoData, okxFundingRate = (\<lambda>instId. None)\<rparr>"

text \<open>
  A refresh in which five exchanges answered: BTC on Binance and Bybit, ETH on OKX,
  HyperLiquid and Gate. The rates are fractions, as the exchanges send them.
\<close>

definition scenarioResponses :: responses where
  "scenarioResponses =
     \<lparr>binanceRatesData = Array [\<lparr>bn_symbol = ''BTCUSDT'', lastFundingRate = Num 0.0001\<rparr>],
      binanceFundingInfoData =
        Array [\<lparr>info_symbol = ''BTCUSDT'', fundingIntervalHours = Num 8\<rparr>],
      bybitRatesData = Array [\<lparr>bb_symbol = ''BTCUSDT'', bb_fundingRate = Some (Num (- 0.00005))\<rparr>],
      bybitInstrumentsData = Array [\<lparr>ins_symbol = ''BTCUSDT'', fundingInterval = Num 480\<rparr>],
      bitgetRatesData = NoData, bitgetContractsData = NoData,
      okxTickersData = Some [\<lparr>tk_instId = ''ETH-USDT-SWAP''\<rparr>],
      okxInstrumentsData = Some (),
      hyperliquidData = Some ([\<lparr>hl_name = ''ETH''\<rparr>], [\<lparr>funding = Num (- 0.00008)\<rparr>]),
      gateContractsData =
        Array [\<lparr>gate_name = ''ETH_USDT'', funding_rate = Some (Num (- 0.0002)),
                funding_interval = Num 14400\<rparr>],
      okxFundingRate =
        (\<lambda>i. if i = ''ETH-USDT-SWAP''
             then Some \<lparr>instId = ''ETH-USDT-SWAP'', okx_fundingRate = Num 0.00002,
                         okx_nextFundingTime = Num 28800000, okx_fundingTime = Num 0\<rparr>
             else None)\<rparr>"


text \<open>A refresh in which Binance answered with a JSON object and the others as above.\<close>

definition binanceObjectResponses :: responses where
  "binanceObjectResponses = scenarioResponses\<lparr>binanceRatesData := Malformed\<rparr>"

text \<open>A refresh in which HyperLiquid alone answered, with an asset that has the name of an
  inherited member.\<close>

definition inheritedNameResponses :: responses where
  "inheritedNameResponses =
     noResponses\<lparr>hyperliquidData :=
       Some ([\<lparr>hl_name = ''constructor''\<rparr>], [\<lparr>funding = Num 0.0001\<rparr>])\<rparr>"



text \<open>Every one of the ten fetches returned no data.\<close>

definition allFailed :: "responses \<Rightarrow> bool" where
  "allFailed resp \<longleftrightarrow>
     binanceRatesData resp = NoData \<and> binanceFundingInfoData resp = NoData
     \<and> bybitRatesData resp = NoData \<and> bybitInstrumentsData resp = NoData
     \<and> bitgetRatesData resp = NoData \<and> bitgetContractsData resp = NoData
     \<and> okxTickersData resp = None \<and> okxInstrumentsData resp = None
     \<and> hyperliquidData resp = None \<and> gateContractsData resp = NoData"

text \<open>The result of a refresh that found nothing, as it is returned and as the handler
  stores it.\<close>

definition emptySuccess :: result where
  "emptySuccess =
     \<lparr>success = True, data = Some [], arbitrageOpportunities = Some [],
      debug = Some \<lparr>bitgetCount = 0, binanceCount = 0, bybitCount = 0, okxCount = 0,
                    hyperliquidCount = 0, gateCount = 0, totalCount = 0\<rparr>,
      lastUpdate = None, error = None\<rparr>"

definition emptySnapshot :: "int \<Rightarrow> result" where
  "emptySnapshot now =
     \<lparr>success = True, data = Some [], arbitrageOpportunities = Some [], debug = None,
      lastUpdate = Some now, error = None\<rparr>"

text \<open>The server after a first pull request, at time 0, answered by the five exchanges.\<close>

definition servedOnce :: server where
  "servedOnce = snd (handler initialServer 0 scenarioResponses 5)"

text \<open>The machine after that first request has been answered.\<close>

definition servedMachine :: machine where
  "servedMachine = run initialMachine [Request 0, Resolve 0 scenarioResponses 5]"

text \<open>The socket cache after a first socket request at time 0, served through the pull
  endpoint.\<close>

definition socketServedOnce :: server where
  "socketServedOnce =
     fst (snd (getFundingRates initialServer initialServer 0 1 scenarioResponses 5 6))"

section \<open>Properties of the numbers\<close>

lemma halvings_numeral [simp]:
  "halvings (numeral k) x = (if x < 2 then 0 else 1 + halvings (pred_numeral k) (x / 2))"
  by (simp add: numeral_eq_Suc)

lemma doublings_numeral [simp]:
  "doublings (numeral k) x = (if 1 \<le> x then 0 else doublings (pred_numeral k) (2 * x) - 1)"
  by (simp add: numeral_eq_Suc)

lemma pow2_powi: "pow2 q = 2 powi q"
  by (simp add: pow2_def power_int_def field_simps)

lemma pow2_pos: "0 < pow2 q"
  by (simp add: pow2_powi)

lemma pow2_add: "pow2 (a + b) = pow2 a * pow2 b"
  by (simp add: pow2_powi power_int_add)

lemma pow2_mono: "a \<le> b \<Longrightarrow> pow2 a \<le> pow2 b"
  by (simp add: pow2_powi power_int_increasing)

lemma pow2_0: "pow2 0 = 1" and pow2_1: "pow2 1 = 2" and pow2_m1: "pow2 (- 1) = 1 / 2"
  by (simp_all add: pow2_def)

lemma halvings_le: "1 \<le> x \<Longrightarrow> pow2 (halvings n x) \<le> x"
proof (induction n arbitrary: x)
  case 0
  then show ?case by (simp add: pow2_0)
next
  case (Suc n)
  show ?case
  proof (cases "x < 2")
    case True
    with Suc.prems show ?thesis by (simp add: pow2_0)
  next
    case False
    then have "1 \<le> x / 2" by simp
    from Suc.IH[OF this] have "pow2 (halvings n (x / 2)) \<le> x / 2" .
    then have "pow2 1 * pow2 (halvings n (x / 2)) \<le> x" by (simp add: pow2_1)
    with False show ?thesis by (simp add: pow2_add)
  qed
qed

lemma doublings_le: "0 < x \<Longrightarrow> 1 \<le> x * 2 ^ n \<Longrightarrow> pow2 (doublings n x) \<le> x"
proof (induction n arbitrary: x)
  case 0
  then show ?case by (simp add: pow2_0)
next
  case (Suc n)
  show ?case
  proof (cases "1 \<le> x")
    case True
    then show ?thesis by (simp add: pow2_0)
  next
    case False
    from Suc.prems have "0 < 2 * x" "1 \<le> (2 * x) * 2 ^ n" by (simp_all add: mult.assoc mult.left_commute)
    from Suc.IH[OF this] have "pow2 (doublings n (2 * x)) \<le> 2 * x" .
    then have "pow2 (doublings n (2 * x)) * pow2 (- 1) \<le> x" by (simp add: pow2_m1)
    then have "pow2 (doublings n (2 * x) + (- 1)) \<le> x" by (simp only: pow2_add)
    with False show ?thesis by simp
  qed
qed

lemma exponent_le:
  assumes "pow2 (- 1100) \<le> x"
  shows "pow2 (exponent x) \<le> x"
proof (cases "1 \<le> x")
  case True
  then show ?thesis by (simp only: exponent_def if_True halvings_le)
next
  case False
  have "0 < x" using assms pow2_pos[of "- 1100"] by linarith
  moreover have "1 \<le> x * 2 ^ 1100"
  proof -
    have "pow2 (- 1100) * 2 ^ 1100 \<le> x * 2 ^ 1100"
      using assms by (rule mult_right_mono) simp
    moreover have "pow2 (- 1100) * 2 ^ 1100 = (1::real)" by (simp add: pow2_def)
    ultimately show ?thesis by simp
  qed
  ultimately have "pow2 (doublings 1100 x) \<le> x" by (rule doublings_le)
  with False show ?thesis by (simp only: exponent_def if_False)
qed

lemma roundHalfEven_ge: "1 \<le> m \<Longrightarrow> 1 \<le> roundHalfEven m"
proof -
  assume "1 \<le> m"
  then have "1 \<le> \<lfloor>m\<rfloor>" by linarith
  then show ?thesis by (simp add: roundHalfEven_def Let_def)
qed

lemma roundDouble_pos:
  assumes "pow2 (- 1074) \<le> x"
  shows "0 < roundDouble x"
proof -
  have x: "0 < x" using assms pow2_pos[of "- 1074"] by linarith
  define q where "q = max (exponent x - 52) (- 1074)"
  have "pow2 q \<le> x"
  proof (cases "exponent x - 52 \<le> - 1074")
    case True
    then have "q = - 1074" by (simp add: q_def)
    with assms show ?thesis by simp
  next
    case False
    then have q: "q = exponent x - 52" by (simp add: q_def)
    have "pow2 (- 1100) \<le> pow2 (- 1074)" by (rule pow2_mono) simp
    with assms have "pow2 (- 1100) \<le> x" by linarith
    then have "pow2 (exponent x) \<le> x" by (rule exponent_le)
    moreover have "pow2 q \<le> pow2 (exponent x)" unfolding q by (rule pow2_mono) simp
    ultimately show ?thesis by linarith
  qed
  then have "1 \<le> x / pow2 q" using pow2_pos[of q] by (simp add: field_simps)
  then have "1 \<le> roundHalfEven (x / pow2 q)" by (rule roundHalfEven_ge)
  then have "0 < of_int (roundHalfEven (x / pow2 q)) * pow2 q"
    using pow2_pos[of q] by simp
  with x show ?thesis by (simp add: roundDouble_def Let_def q_def)
qed

lemma roundDouble_minus: "roundDouble (- x) = - roundDouble x"
  by (simp add: roundDouble_def Let_def)

lemma roundDouble_0: "roundDouble 0 = 0"
  by (simp add: roundDouble_def)

lemma pow2_cancel: "pow2 1074 * pow2 (- 1074) = 1"
proof -
  have "pow2 1074 * pow2 (- 1074) = pow2 (1074 + (- 1074))" by (simp only: pow2_add)
  then show ?thesis by (simp add: pow2_0)
qed

lemma onGrid_iff: "onGrid x \<longleftrightarrow> (\<exists>k::int. x = of_int k * pow2 (- 1074))"
proof
  assume "onGrid x"
  then have "x * pow2 1074 = of_int \<lfloor>x * pow2 1074\<rfloor>" unfolding onGrid_def by (rule sym)
  then have "x * (pow2 1074 * pow2 (- 1074)) = of_int \<lfloor>x * pow2 1074\<rfloor> * pow2 (- 1074)"
    by (simp only: mult.assoc[symmetric])
  then have "x = of_int \<lfloor>x * pow2 1074\<rfloor> * pow2 (- 1074)" by (simp only: pow2_cancel mult_1_right)
  then show "\<exists>k::int. x = of_int k * pow2 (- 1074)" ..
next
  assume "\<exists>k::int. x = of_int k * pow2 (- 1074)"
  then obtain k :: int where "x = of_int k * pow2 (- 1074)" ..
  then have "x * pow2 1074 = of_int k * (pow2 1074 * pow2 (- 1074))" by (simp only: mult_ac)
  then have "x * pow2 1074 = of_int k" by (simp only: pow2_cancel mult_1_right)
  then show "onGrid x" by (simp add: onGrid_def)
qed

lemma onGrid_0: "onGrid 0"
  by (simp add: onGrid_def)

lemma onGrid_minus: "onGrid x \<Longrightarrow> onGrid (- x)"
proof -
  assume "onGrid x"
  then obtain k :: int where "x = of_int k * pow2 (- 1074)" unfolding onGrid_iff ..
  then have "- x = of_int (- k) * pow2 (- 1074)" by simp
  then show ?thesis unfolding onGrid_iff ..
qed

lemma onGrid_diff: "onGrid a \<Longrightarrow> onGrid b \<Longrightarrow> onGrid (a - b)"
proof -
  assume "onGrid a" "onGrid b"
  then obtain k l :: int where "a = of_int k * pow2 (- 1074)" "b = of_int l * pow2 (- 1074)"
    unfolding onGrid_iff by blast
  then have "a - b = of_int (k - l) * pow2 (- 1074)" by (simp add: algebra_simps)
  then show ?thesis unfolding onGrid_iff ..
qed

lemma onGrid_pos: "onGrid x \<Longrightarrow> 0 < x \<Longrightarrow> pow2 (- 1074) \<le> x"
proof -
  assume g: "onGrid x" and "0 < x"
  from g obtain k :: int where k: "x = of_int k * pow2 (- 1074)" unfolding onGrid_iff ..
  with \<open>0 < x\<close> pow2_pos[of "- 1074"] have "0 < (of_int k :: real)"
    by (simp add: zero_less_mult_iff)
  then have "1 \<le> k" by simp
  then have "(1::real) \<le> of_int k" by simp
  then have "1 * pow2 (- 1074) \<le> of_int k * pow2 (- 1074)"
    using pow2_pos[of "- 1074"] by (intro mult_right_mono) simp_all
  with k show ?thesis by simp
qed

lemma onGrid_roundDouble: "onGrid (roundDouble x)"
proof -
  have pos: "onGrid (roundDouble y)" if "0 < y" for y
  proof -
    define q where "q = max (exponent y - 52) (- 1074)"
    define r where "r = roundHalfEven (y / pow2 q)"
    have "0 \<le> q + 1074" by (simp add: q_def)
    then have p: "pow2 (q + 1074) = of_int (2 ^ nat (q + 1074))" by (simp add: pow2_def)
    have "pow2 q = pow2 ((q + 1074) + (- 1074))" by simp
    also have "\<dots> = pow2 (q + 1074) * pow2 (- 1074)" by (rule pow2_add)
    finally have "pow2 q = of_int (2 ^ nat (q + 1074)) * pow2 (- 1074)" by (simp only: p)
    moreover have "roundDouble y = of_int r * pow2 q"
      using that by (simp add: roundDouble_def Let_def q_def r_def)
    ultimately have "roundDouble y = of_int (r * 2 ^ nat (q + 1074)) * pow2 (- 1074)"
      by simp
    then show ?thesis unfolding onGrid_iff ..
  qed
  consider "x = 0" | "0 < x" | "0 < - x" by linarith
  then show ?thesis
  proof cases
    case 1
    then show ?thesis by (simp add: roundDouble_0 onGrid_0)
  next
    case 2
    then show ?thesis by (rule pos)
  next
    case 3
    from pos[OF this] have "onGrid (- roundDouble x)" by (simp only: roundDouble_minus)
    from onGrid_minus[OF this] show ?thesis by simp
  qed
qed

lemma roundDouble_sign:
  assumes "onGrid x"
  shows "(0 < roundDouble x \<longleftrightarrow> 0 < x) \<and> (roundDouble x < 0 \<longleftrightarrow> x < 0)
       \<and> (roundDouble x = 0 \<longleftrightarrow> x = 0)"
proof -
  consider "x = 0" | "0 < x" | "0 < - x" by linarith
  then show ?thesis
  proof cases
    case 1
    then show ?thesis by (simp add: roundDouble_0)
  next
    case 2
    from roundDouble_pos[OF onGrid_pos[OF assms 2]] 2 show ?thesis by simp
  next
    case 3
    from roundDouble_pos[OF onGrid_pos[OF onGrid_minus[OF assms] 3]]
    have "roundDouble x < 0" by (simp add: roundDouble_minus)
    with 3 show ?thesis by simp
  qed
qed

lemma numSubtract_sign:
  assumes "onGrid a" "onGrid b"
  shows "(0 < numSubtract a b \<longleftrightarrow> b < a) \<and> (numSubtract a b < 0 \<longleftrightarrow> a < b)
       \<and> (numSubtract a b = 0 \<longleftrightarrow> a = b)"
  using roundDouble_sign[OF onGrid_diff[OF assms]] by (simp add: numSubtract_def)



lemma onGrid_numSubtract: "onGrid (numSubtract a b)"
  by (simp add: numSubtract_def onGrid_roundDouble)

lemmas eval_double = roundDouble_def exponent_def pow2_def roundHalfEven_def Let_def
  numSubtract_def numMultiply_def numDivide_def


section \<open>Properties of the arbitrage detector\<close>

subsection \<open>The groups\<close>

lemma map_fst_pushGroup: "map fst (pushGroup g k r) = map fst g"
  by (induction g k r rule: pushGroup.induct) auto

lemma map_of_pushGroup:
  "map_of (pushGroup g k r) s =
     (if s = k then map_option (\<lambda>rs. rs @ [r]) (map_of g k) else map_of g s)"
  by (induction g k r rule: pushGroup.induct) auto

lemma isNumber_iff: "isNumber v \<longleftrightarrow> (\<exists>c. v = Some (Num c))"
  by (cases v rule: isNumber.cases) auto

lemma exception_eq: "(e::exception) = e'"
  by (cases e; cases e') simp

lemma groupStep_Inl:
  "groupStep rate g = Inl e \<longleftrightarrow> accepted rate \<and> inheritedMember (symbol rate)"
  by (cases "currentRate rate"; cases "the (currentRate rate)")
     (auto simp: groupStep_def Let_def accepted_def intro: exception_eq)

lemma groupStep_Inr:
  assumes "groupStep rate g = Inr g'"
  shows "lookupGroup g' s =
     lookupGroup g s @ map grouped (filter (\<lambda>r. accepted r \<and> symbol r = s) [rate])"
proof (cases "accepted rate")
  case True
  then obtain c where c: "currentRate rate = Some (Num c)" and n: "symbol rate \<noteq> []" "exchange rate \<noteq> []"
    by (auto simp: accepted_def isNumber_iff)
  from assms c n have i: "\<not> inheritedMember (symbol rate)"
    by (auto simp: groupStep_def Let_def split: if_splits)
  from assms c n i have "g' = pushGroup (if map_of g (symbol rate) = None then g @ [(symbol rate, [])] else g)
      (symbol rate) (groupedEntry rate (roundDouble c))"
    by (simp add: groupStep_def Let_def)
  with True c show ?thesis
    by (auto simp: lookupGroup_def map_of_pushGroup map_add_def grouped_def parsedRate_def
          split: option.splits)
next
  case False
  with assms show ?thesis
    by (cases "currentRate rate"; cases "the (currentRate rate)")
       (auto simp: groupStep_def Let_def accepted_def lookupGroup_def map_add_def
          split: option.splits if_splits)
qed

lemma forEachRate_Inr:
  "forEachRate rates g = Inr g' \<Longrightarrow>
   lookupGroup g' s =
     lookupGroup g s @ map grouped (filter (\<lambda>r. accepted r \<and> symbol r = s) rates)"
proof (induction rates arbitrary: g)
  case Nil
  then show ?case by simp
next
  case (Cons rate rates)
  from Cons.prems obtain g1 where s: "groupStep rate g = Inr g1" and r: "forEachRate rates g1 = Inr g'"
    by (auto split: sum.splits)
  from Cons.IH[OF r] groupStep_Inr[OF s, of s] show ?case by simp
qed

lemma forEachRate_Inl:
  "forEachRate rates g = Inl e \<longleftrightarrow> (\<exists>r \<in> set rates. accepted r \<and> inheritedMember (symbol r))"
proof (induction rates arbitrary: g)
  case Nil
  then show ?case by simp
next
  case (Cons rate rates)
  show ?case
  proof (cases "groupStep rate g")
    case (Inl e')
    then have "accepted rate \<and> inheritedMember (symbol rate)" by (simp add: groupStep_Inl)
    with Inl show ?thesis by (auto intro: exception_eq)
  next
    case (Inr g1)
    have "\<not> (accepted rate \<and> inheritedMember (symbol rate))"
      using Inr groupStep_Inl[of rate g TypeError] by auto
    with Inr Cons.IH[of g1] show ?thesis by auto
  qed
qed

lemma lookupGroup_Nil: "lookupGroup [] s = []"
  by (simp add: lookupGroup_def)

lemma groupRates_lookup:
  "groupRates rates = Inr g \<Longrightarrow>
   lookupGroup g s = map grouped (filter (\<lambda>r. accepted r \<and> symbol r = s) rates)"
  using forEachRate_Inr[of rates "[]" g s] by (simp add: groupRates_def lookupGroup_Nil)

text \<open>The detector returns a list unless an accepted rate has the name of an inherited
  member for its symbol; then it throws.\<close>

lemma groupRates_throws:
  "groupRates rates = Inl TypeError \<longleftrightarrow> (\<exists>r \<in> set rates. accepted r \<and> inheritedMember (symbol r))"
  by (simp add: groupRates_def forEachRate_Inl)

lemma detector_throws:
  "calculateArbitrageOpportunities rates = Inl TypeError
     \<longleftrightarrow> (\<exists>r \<in> set rates. accepted r \<and> inheritedMember (symbol r))"
  unfolding groupRates_throws[symmetric]
  by (auto simp: calculateArbitrageOpportunities_def split: sum.splits intro: exception_eq)

lemma detector_returns:
  "(\<exists>out. calculateArbitrageOpportunities rates = Inr out)
     \<longleftrightarrow> \<not> (\<exists>r \<in> set rates. accepted r \<and> inheritedMember (symbol r))"
  unfolding detector_throws[symmetric]
  by (cases "calculateArbitrageOpportunities rates") (auto intro: exception_eq)

text \<open>No inherited member has a name in upper case, so the detector returns a list for
  rates whose symbols are tickers in upper case.\<close>

lemma inheritedMember_lower: "inheritedMember s \<Longrightarrow> \<not> upperCase s"
  by (auto simp: inheritedMember_def inheritedMembers_def upperCase_def)

lemma detector_returns_tickers:
  assumes "\<forall>r \<in> set rates. upperCase (symbol r)"
  shows "\<exists>out. calculateArbitrageOpportunities rates = Inr out"
  unfolding detector_returns using assms inheritedMember_lower by blast

lemma detector_groups:
  "calculateArbitrageOpportunities rates = Inr out \<longleftrightarrow>
     (\<exists>g. groupRates rates = Inr g \<and> out = sortOpportunities (emittedOpportunities g))"
  by (auto simp: calculateArbitrageOpportunities_def split: sum.splits)

lemma set_objectKeys: "set (objectKeys obj) = fst ` set obj"
  by (auto simp: objectKeys_def)

lemma symbolOpportunities_iff:
  "opp \<in> set (symbolOpportunities s rs) \<longleftrightarrow>
     (\<exists>pre a mid b post. rs = pre @ a # mid @ b # post \<and> pairOpportunity s a b = Some opp)"
proof (induction rs)
  case Nil
  then show ?case by simp
next
  case (Cons r rs)
  have "opp \<in> set (List.map_filter (pairOpportunity s r) rs) \<longleftrightarrow>
        (\<exists>b \<in> set rs. pairOpportunity s r b = Some opp)"
    by (force simp: List.map_filter_def)
  also have "\<dots> \<longleftrightarrow> (\<exists>mid b post. rs = mid @ b # post \<and> pairOpportunity s r b = Some opp)"
    by (metis in_set_conv_decomp)
  finally have "opp \<in> set (List.map_filter (pairOpportunity s r) rs) \<longleftrightarrow>
        (\<exists>mid b post. rs = mid @ b # post \<and> pairOpportunity s r b = Some opp)" .
  moreover have "(\<exists>pre a mid b post. r # rs = pre @ a # mid @ b # post \<and> pairOpportunity s a b = Some opp) \<longleftrightarrow>
     (\<exists>mid b post. rs = mid @ b # post \<and> pairOpportunity s r b = Some opp) \<or>
     (\<exists>pre a mid b post. rs = pre @ a # mid @ b # post \<and> pairOpportunity s a b = Some opp)"
    (is "?L \<longleftrightarrow> ?A \<or> ?B")
  proof
    assume ?L
    then obtain pre a mid b post where d: "r # rs = pre @ a # mid @ b # post" and p: "pairOpportunity s a b = Some opp"
      by blast
    show "?A \<or> ?B"
    proof (cases pre)
      case Nil
      with d p show ?thesis by auto
    next
      case (Cons x pre')
      with d p have "rs = pre' @ a # mid @ b # post" by simp
      with p show ?thesis by blast
    qed
  next
    assume "?A \<or> ?B"
    then show ?L
    proof
      assume ?A
      then obtain mid b post where "rs = mid @ b # post" "pairOpportunity s r b = Some opp" by blast
      then have "r # rs = [] @ r # mid @ b # post" by simp
      then show ?L using \<open>pairOpportunity s r b = Some opp\<close> by blast
    next
      assume ?B
      then obtain pre a mid b post where "rs = pre @ a # mid @ b # post" "pairOpportunity s a b = Some opp" by blast
      then have "r # rs = (r # pre) @ a # mid @ b # post" by simp
      then show ?L using \<open>pairOpportunity s a b = Some opp\<close> by blast
    qed
  qed
  ultimately show ?case using Cons.IH by auto
qed


subsection \<open>The ranking is a stable sort by key\<close>

lemma set_insertOpportunity: "set (insertOpportunity a bs) = insert a (set bs)"
  by (induction bs) auto

lemma set_sortOpportunities: "set (sortOpportunities opps) = set opps"
  by (induction opps) (simp_all add: sortOpportunities_def set_insertOpportunity)








lemma lookupGroup_no_key: "s \<notin> fst ` set g \<Longrightarrow> lookupGroup g s = []"
  by (simp add: lookupGroup_def map_of_eq_None_iff[THEN iffD2])

lemma emitted_iff:
  "opp \<in> set (emittedOpportunities g) \<longleftrightarrow>
     (\<exists>s. opp \<in> set (symbolOpportunities s (lookupGroup g s)))"
proof
  assume "opp \<in> set (emittedOpportunities g)"
  then show "\<exists>s. opp \<in> set (symbolOpportunities s (lookupGroup g s))"
    by (auto simp: emittedOpportunities_def)
next
  assume "\<exists>s. opp \<in> set (symbolOpportunities s (lookupGroup g s))"
  then obtain s where s: "opp \<in> set (symbolOpportunities s (lookupGroup g s))" ..
  have "s \<in> fst ` set g"
  proof (rule ccontr)
    assume "s \<notin> fst ` set g"
    then have "lookupGroup g s = []" by (rule lookupGroup_no_key)
    with s show False by simp
  qed
  with s show "opp \<in> set (emittedOpportunities g)"
    by (auto simp: emittedOpportunities_def set_objectKeys)
qed

lemma output_iff:
  assumes "calculateArbitrageOpportunities rates = Inr out"
  shows "opp \<in> set out \<longleftrightarrow>
     (\<exists>s pre a mid b post.
        map grouped (filter (\<lambda>r. accepted r \<and> symbol r = s) rates) = pre @ a # mid @ b # post
        \<and> pairOpportunity s a b = Some opp)"
proof -
  from assms obtain g where g: "groupRates rates = Inr g"
    and out: "out = sortOpportunities (emittedOpportunities g)"
    unfolding detector_groups by blast
  show ?thesis
    unfolding out set_sortOpportunities emitted_iff symbolOpportunities_iff groupRates_lookup[OF g] ..
qed

lemma pair_in_output:
  assumes "calculateArbitrageOpportunities rates = Inr out"
    and "rates = pre @ x # mid @ y # post" "accepted x" "accepted y" "symbol x = symbol y"
    and "pairOpportunity (symbol x) (grouped x) (grouped y) = Some opp"
  shows "opp \<in> set out"
proof -
  let ?P = "\<lambda>r. accepted r \<and> symbol r = symbol x"
  have "map grouped (filter ?P rates) =
        map grouped (filter ?P pre) @ grouped x # map grouped (filter ?P mid) @ grouped y # map grouped (filter ?P post)"
    using assms(2-5) by simp
  with assms(6) show ?thesis unfolding output_iff[OF assms(1)] by blast
qed

lemma map_filter_decomp:
  assumes "map f (filter P xs) = pre @ a # rest"
  shows "\<exists>xpre x xrest. xs = xpre @ x # xrest \<and> P x \<and> f x = a \<and> map f (filter P xrest) = rest"
  using assms
proof (induction xs arbitrary: pre)
  case Nil
  then show ?case by simp
next
  case (Cons z zs)
  show ?case
  proof (cases "P z")
    case False
    with Cons.prems have "map f (filter P zs) = pre @ a # rest" by simp
    from Cons.IH[OF this] obtain xpre x xrest where
      "zs = xpre @ x # xrest" "P x" "f x = a" "map f (filter P xrest) = rest" by blast
    then have "z # zs = (z # xpre) @ x # xrest" by simp
    with \<open>P x\<close> \<open>f x = a\<close> \<open>map f (filter P xrest) = rest\<close> show ?thesis by blast
  next
    case True
    show ?thesis
    proof (cases pre)
      case Nil
      with True Cons.prems have "f z = a" "map f (filter P zs) = rest" by simp_all
      moreover have "z # zs = [] @ z # zs" by simp
      ultimately show ?thesis using True by blast
    next
      case (Cons p pre')
      with True Cons.prems have "map f (filter P zs) = pre' @ a # rest" by simp
      from Cons.IH[OF this] obtain xpre x xrest where
        "zs = xpre @ x # xrest" "P x" "f x = a" "map f (filter P xrest) = rest" by blast
      then have "z # zs = (z # xpre) @ x # xrest" by simp
      with \<open>P x\<close> \<open>f x = a\<close> \<open>map f (filter P xrest) = rest\<close> show ?thesis by blast
    qed
  qed
qed

lemma output_from_pair:
  assumes "calculateArbitrageOpportunities rates = Inr out" and "opp \<in> set out"
  shows "\<exists>pre x mid y post. rates = pre @ x # mid @ y # post \<and> accepted x \<and> accepted y \<and>
    symbol x = symbol y \<and> pairOpportunity (symbol x) (grouped x) (grouped y) = Some opp"
proof -
  from assms(2) obtain s pre a mid b post where
    d: "map grouped (filter (\<lambda>r. accepted r \<and> symbol r = s) rates) = pre @ a # mid @ b # post"
    and p: "pairOpportunity s a b = Some opp" unfolding output_iff[OF assms(1)] by blast
  let ?P = "\<lambda>r. accepted r \<and> symbol r = s"
  from map_filter_decomp[OF d] obtain xpre x xrest where
    r1: "rates = xpre @ x # xrest" and x: "?P x" "grouped x = a"
    and d2: "map grouped (filter ?P xrest) = mid @ b # post" by (elim exE conjE) auto
  from map_filter_decomp[OF d2] obtain xmid y xpost where
    r2: "xrest = xmid @ y # xpost" and y: "?P y" "grouped y = b" by (elim exE conjE) auto
  from r1 r2 have "rates = xpre @ x # xmid @ y # xpost" by simp
  moreover from p x y have "pairOpportunity (symbol x) (grouped x) (grouped y) = Some opp" by simp
  moreover from x y have "accepted x" "accepted y" "symbol x = symbol y" by simp_all
  ultimately show ?thesis by (intro exI conjI)
qed


lemma pairOpportunity_different:
  assumes "settlementInterval rate1 \<noteq> settlementInterval rate2"
  shows "pairOpportunity s rate1 rate2 = Some opp \<longleftrightarrow>
     (let short = (if settlementInterval rate1 < settlementInterval rate2 then rate1 else rate2);
          long = (if settlementInterval rate1 < settlementInterval rate2 then rate2 else rate1)
      in currentRate short < 0 \<and> \<bar>currentRate short\<bar> > roundDouble 0.005 \<and>
         opp = \<lparr>osymbol = s, otype = different_period,
                        longExchange = exchange short,
                        shortExchange = exchange long,
                        longRate = currentRate short,
                        shortRate = currentRate long,
                        rateDiff = \<bar>numSubtract (currentRate short) (currentRate long)\<bar>,
                        settlementPeriod = None,
                        settlementPeriod1 = Some (settlementInterval short),
                        settlementPeriod2 = Some (settlementInterval long),
                        expectedProfit = Some \<bar>currentRate short\<bar>,
                        annualYield =
                          numMultiply
                            (numMultiply \<bar>currentRate short\<bar> (numDivide 24 (settlementInterval short)))
                            365\<rparr>)"
  using assms unfolding pairOpportunity_def Let_def by auto

lemma pairOpportunity_same:
  assumes "settlementInterval rate1 = settlementInterval rate2"
  shows "pairOpportunity s rate1 rate2 = Some opp \<longleftrightarrow>
     (let d = numSubtract (currentRate rate1) (currentRate rate2);
          y = numMultiply (numMultiply \<bar>d\<bar> (numDivide 24 (settlementInterval rate1))) 365
      in \<not> \<bar>d\<bar> < roundDouble 0.001 \<and> y > 1 \<and>
         opp = \<lparr>osymbol = s, otype = same_period,
                        longExchange = (if d > 0 then exchange rate2 else exchange rate1),
                        shortExchange = (if d > 0 then exchange rate1 else exchange rate2),
                        longRate = (if d > 0 then currentRate rate2 else currentRate rate1),
                        shortRate = (if d > 0 then currentRate rate1 else currentRate rate2),
                        rateDiff = \<bar>d\<bar>,
                        settlementPeriod = Some (settlementInterval rate1),
                        settlementPeriod1 = None,
                        settlementPeriod2 = None,
                        expectedProfit = None,
                        annualYield = y\<rparr>)"
  using assms unfolding pairOpportunity_def Let_def by auto

lemma roundDouble_literal_pos: "0 < roundDouble 0.001" "0 < roundDouble 0.005"
  by (simp_all add: eval_double)

lemma onGrid_grouped: "accepted x \<Longrightarrow> onGrid (currentRate (grouped x))"
  by (auto simp: accepted_def isNumber_iff grouped_def groupedEntry_def parsedRate_def onGrid_roundDouble)

lemma pairOpportunity_cases:
  assumes "pairOpportunity s rate1 rate2 = Some opp"
    and "onGrid (currentRate rate1)" "onGrid (currentRate rate2)"
  shows "(otype opp = different_period \<and> longRate opp < 0
            \<and> expectedProfit opp = Some \<bar>longRate opp\<bar> \<and> \<bar>longRate opp\<bar> > roundDouble 0.005)
       \<or> (otype opp = same_period \<and> annualYield opp > 1 \<and> rateDiff opp \<ge> roundDouble 0.001
            \<and> longRate opp < shortRate opp)"
proof (cases "settlementInterval rate1 = settlementInterval rate2")
  case True
  note s = numSubtract_sign[OF assms(2,3)]
  from assms(1)[unfolded pairOpportunity_same[OF True] Let_def] roundDouble_literal_pos(1) s
  show ?thesis by (auto split: if_splits)
next
  case False
  from assms(1)[unfolded pairOpportunity_different[OF False] Let_def]
  show ?thesis by (auto split: if_splits)
qed

lemma output_cases:
  assumes "calculateArbitrageOpportunities rates = Inr out" "opp \<in> set out"
  shows "(otype opp = different_period \<and> longRate opp < 0
            \<and> expectedProfit opp = Some \<bar>longRate opp\<bar> \<and> \<bar>longRate opp\<bar> > roundDouble 0.005)
       \<or> (otype opp = same_period \<and> annualYield opp > 1 \<and> rateDiff opp \<ge> roundDouble 0.001
            \<and> longRate opp < shortRate opp)"
proof -
  from output_from_pair[OF assms] obtain x y where "accepted x" "accepted y"
    "pairOpportunity (symbol x) (grouped x) (grouped y) = Some opp" by blast
  from pairOpportunity_cases[OF this(3) onGrid_grouped[OF this(1)] onGrid_grouped[OF this(2)]]
  show ?thesis .
qed

lemma output_different_period:
  assumes "calculateArbitrageOpportunities rates = Inr out" "opp \<in> set out"
    "otype opp = different_period"
  shows "longRate opp < 0 \<and> expectedProfit opp = Some \<bar>longRate opp\<bar>
       \<and> \<bar>longRate opp\<bar> > roundDouble 0.005"
  using output_cases[OF assms(1,2)] assms(3) by auto


lemmas eval_detector = calculateArbitrageOpportunities_def emittedOpportunities_def groupRates_def
  groupStep_def inheritedMember_def inheritedMembers_def objectKeys_def isArrayIndex_def
  lookupGroup_def pairOpportunity_def List.map_filter_def sortOpportunities_def Let_def
  groupedEntry_def defaultedInterval_def compareOpportunities_def

lemmas eval_rates = btcBinance_def btcBybit_def ethHyperLiquid_def ethOKX_def ethGate_def
  solHourly_def solBinance_def dogeBinance_def dogeBybit_def ltcOKX_def ltcGate_def
  adaOKX_def adaGate_def constructorRate_def

subsection \<open>What a pair of rates emits\<close>

lemma detector_ETH_pair:
  "calculateArbitrageOpportunities [ethHyperLiquid, ethOKX] = Inr [rankedOutput ! 0]"
  by (simp add: eval_detector eval_rates eval_double rankedOutput_def)



lemma detector_LTC_pair:
  "\<exists>opp. calculateArbitrageOpportunities [ltcOKX, ltcGate] = Inr [opp]
     \<and> otype opp = same_period \<and> annualYield opp = 1 + 1 / 2 ^ 52
     \<and> longExchange opp = ''Gate'' \<and> shortExchange opp = ''OKX''"
  by (simp add: eval_detector eval_rates eval_double)


lemma detector_constructor:
  "calculateArbitrageOpportunities [btcBinance, constructorRate, btcBybit] = Inl TypeError"
  by (simp add: eval_detector eval_rates eval_double)

text \<open>
  C1. Let the detector return the list \<open>out\<close> for the rates. Take two accepted rates of
  one symbol, \<open>x\<close> before \<open>y\<close> in the input, whose grouped intervals differ, and let
  \<open>short\<close> be the one with the shorter interval. The detector emits an opportunity for
  the pair if and only if the rate of \<open>short\<close> is strictly negative and its absolute
  value, the expected profit, is strictly greater than 0.005. The emitted record is in
  \<open>out\<close>, has type \<open>different_period\<close>, annual yield
  \<open>expectedProfit * (24 / short.settlementInterval) * 365\<close> as the numbers compute it,
  the exchange of \<open>short\<close> as \<open>longExchange\<close> and the exchange of the other rate as
  \<open>shortExchange\<close>. And every \<open>different_period\<close> opportunity in \<open>out\<close> has a
  strictly negative long rate whose absolute value, its expected profit, is strictly
  greater than 0.005.
\<close>

theorem different_period_emission:
  assumes "calculateArbitrageOpportunities rates = Inr out"
    and "rates = pre @ x # mid @ y # post"
    and "accepted x" and "accepted y" and "symbol x = symbol y"
    and "rate1 = grouped x" and "rate2 = grouped y"
    and "settlementInterval rate1 \<noteq> settlementInterval rate2"
    and "short = (if settlementInterval rate1 < settlementInterval rate2 then rate1 else rate2)"
    and "long = (if settlementInterval rate1 < settlementInterval rate2 then rate2 else rate1)"
  shows "((\<exists>opp. pairOpportunity (symbol x) rate1 rate2 = Some opp)
            \<longleftrightarrow> currentRate short < 0 \<and> \<bar>currentRate short\<bar> > roundDouble 0.005)
       \<and> (\<forall>opp. pairOpportunity (symbol x) rate1 rate2 = Some opp \<longrightarrow>
              opp \<in> set out
              \<and> otype opp = different_period
              \<and> expectedProfit opp = Some \<bar>currentRate short\<bar>
              \<and> annualYield opp =
                  numMultiply
                    (numMultiply \<bar>currentRate short\<bar> (numDivide 24 (settlementInterval short))) 365
              \<and> longExchange opp = exchange short
              \<and> shortExchange opp = exchange long)
       \<and> (\<forall>opp \<in> set out.
              otype opp = different_period \<longrightarrow>
              longRate opp < 0 \<and> expectedProfit opp = Some \<bar>longRate opp\<bar>
              \<and> \<bar>longRate opp\<bar> > roundDouble 0.005)"
proof -
  let ?pair = "pairOpportunity (symbol x) rate1 rate2"
  let ?yield = "numMultiply
                  (numMultiply \<bar>currentRate short\<bar> (numDivide 24 (settlementInterval short))) 365"
  have char: "?pair = Some opp \<longleftrightarrow>
      currentRate short < 0 \<and> \<bar>currentRate short\<bar> > roundDouble 0.005 \<and>
      opp = \<lparr>osymbol = symbol x, otype = different_period,
              longExchange = exchange short, shortExchange = exchange long,
              longRate = currentRate short, shortRate = currentRate long,
              rateDiff = \<bar>numSubtract (currentRate short) (currentRate long)\<bar>,
              settlementPeriod = None,
              settlementPeriod1 = Some (settlementInterval short),
              settlementPeriod2 = Some (settlementInterval long),
              expectedProfit = Some \<bar>currentRate short\<bar>,
              annualYield = ?yield\<rparr>" for opp
    using pairOpportunity_different[OF assms(8), of "symbol x" opp]
    unfolding Let_def assms(9)[symmetric] assms(10)[symmetric] .
  have emits: "(\<exists>opp. ?pair = Some opp)
      \<longleftrightarrow> currentRate short < 0 \<and> \<bar>currentRate short\<bar> > roundDouble 0.005"
    unfolding char by simp
  have fields: "otype opp = different_period \<and> expectedProfit opp = Some \<bar>currentRate short\<bar>
      \<and> annualYield opp = ?yield
      \<and> longExchange opp = exchange short \<and> shortExchange opp = exchange long"
    if "?pair = Some opp" for opp
    using that unfolding char by simp
  have mem: "opp \<in> set out" if "?pair = Some opp" for opp
    using pair_in_output[OF assms(1-5)] that unfolding assms(6,7) .
  have only: "\<forall>opp \<in> set out.
      otype opp = different_period \<longrightarrow>
      longRate opp < 0 \<and> expectedProfit opp = Some \<bar>longRate opp\<bar>
      \<and> \<bar>longRate opp\<bar> > roundDouble 0.005"
    using output_different_period[OF assms(1)] by blast
  from emits fields mem have "((\<exists>opp. ?pair = Some opp)
            \<longleftrightarrow> currentRate short < 0 \<and> \<bar>currentRate short\<bar> > roundDouble 0.005)
       \<and> (\<forall>opp. ?pair = Some opp \<longrightarrow>
              opp \<in> set out
              \<and> otype opp = different_period
              \<and> expectedProfit opp = Some \<bar>currentRate short\<bar>
              \<and> annualYield opp = ?yield
              \<and> longExchange opp = exchange short
              \<and> shortExchange opp = exchange long)" (is "?A \<and> ?B")
    by blast
  then have main1: ?A and main2: ?B by (rule conjunct1, rule conjunct2)
  show ?thesis
    by (rule conjI[OF main1 conjI[OF main2 only]])
qed

theorem different_period_emission_witness:
  "calculateArbitrageOpportunities [ethHyperLiquid, ethOKX] = Inr [rankedOutput ! 0]
   \<and> accepted ethHyperLiquid \<and> accepted ethOKX \<and> symbol ethHyperLiquid = symbol ethOKX
   \<and> settlementInterval (grouped ethHyperLiquid) \<noteq> settlementInterval (grouped ethOKX)
   \<and> (\<exists>opp. pairOpportunity ''ETH'' (grouped ethHyperLiquid) (grouped ethOKX) = Some opp
          \<and> opp \<in> set [rankedOutput ! 0]
          \<and> otype opp = different_period
          \<and> expectedProfit opp = Some (roundDouble 0.008)
          \<and> annualYield opp = roundDouble 70.08
          \<and> longExchange opp = ''HyperLiquid''
          \<and> shortExchange opp = ''OKX'')"
proof -
  have h: "accepted ethHyperLiquid" "accepted ethOKX" "symbol ethHyperLiquid = symbol ethOKX"
    "settlementInterval (grouped ethHyperLiquid) \<noteq> settlementInterval (grouped ethOKX)"
    by (simp_all add: accepted_def ethHyperLiquid_def ethOKX_def grouped_def groupedEntry_def
          defaultedInterval_def)
  have g: "grouped ethHyperLiquid =
      (if settlementInterval (grouped ethHyperLiquid) < settlementInterval (grouped ethOKX)
       then grouped ethHyperLiquid else grouped ethOKX)"
    "grouped ethOKX =
      (if settlementInterval (grouped ethHyperLiquid) < settlementInterval (grouped ethOKX)
       then grouped ethOKX else grouped ethHyperLiquid)"
    by (simp_all add: ethHyperLiquid_def ethOKX_def grouped_def groupedEntry_def
          defaultedInterval_def)
  have d: "[ethHyperLiquid, ethOKX] = [] @ ethHyperLiquid # [] @ ethOKX # []" by simp
  have s: "symbol ethHyperLiquid = ''ETH''" by (simp add: ethHyperLiquid_def)
  have c: "currentRate (grouped ethHyperLiquid) < 0
      \<and> \<bar>currentRate (grouped ethHyperLiquid)\<bar> > roundDouble 0.005"
    by (simp add: ethHyperLiquid_def grouped_def groupedEntry_def parsedRate_def eval_double)
  have e: "\<bar>currentRate (grouped ethHyperLiquid)\<bar> = roundDouble 0.008"
    "numMultiply
       (numMultiply \<bar>currentRate (grouped ethHyperLiquid)\<bar>
          (numDivide 24 (settlementInterval (grouped ethHyperLiquid)))) 365 = roundDouble 70.08"
    "exchange (grouped ethHyperLiquid) = ''HyperLiquid''" "exchange (grouped ethOKX) = ''OKX''"
    by (simp_all add: ethHyperLiquid_def ethOKX_def grouped_def groupedEntry_def
          defaultedInterval_def parsedRate_def eval_double)
  note t = different_period_emission[OF detector_ETH_pair d h(1,2,3) refl refl h(4) g]
  from t[THEN conjunct1] c s
  obtain opp where p: "pairOpportunity ''ETH'' (grouped ethHyperLiquid) (grouped ethOKX) = Some opp"
    by auto
  note f = t[THEN conjunct2, THEN conjunct1, THEN spec, THEN mp, of opp, unfolded s, OF p]
  from f[unfolded e(2), unfolded e(1,3,4)]
  have "opp \<in> set [rankedOutput ! 0]
          \<and> otype opp = different_period
          \<and> expectedProfit opp = Some (roundDouble 0.008)
          \<and> annualYield opp = roundDouble 70.08
          \<and> longExchange opp = ''HyperLiquid''
          \<and> shortExchange opp = ''OKX''" .
  with p have "\<exists>opp. pairOpportunity ''ETH'' (grouped ethHyperLiquid) (grouped ethOKX) = Some opp
          \<and> opp \<in> set [rankedOutput ! 0]
          \<and> otype opp = different_period
          \<and> expectedProfit opp = Some (roundDouble 0.008)
          \<and> annualYield opp = roundDouble 70.08
          \<and> longExchange opp = ''HyperLiquid''
          \<and> shortExchange opp = ''OKX''"
    by blast
  with detector_ETH_pair h show ?thesis by (intro conjI)
qed




subsection \<open>Ranking\<close>






subsection \<open>The defaulted interval\<close>

lemma defaultedInterval_falsy:
  "\<not> truthy (settlementInterval rate) \<Longrightarrow> defaultedInterval rate = (if isHourly rate then 1 else 8)"
  by (cases "settlementInterval rate" rule: truthy.cases) (simp_all add: defaultedInterval_def)

lemma defaultedInterval_truthy:
  "truthy (settlementInterval rate) \<Longrightarrow> settlementInterval rate = Some (Num (defaultedInterval rate))"
  by (cases "settlementInterval rate" rule: truthy.cases) (simp_all add: defaultedInterval_def)

lemma defaultedInterval_nonzero: "defaultedInterval rate \<noteq> 0"
  by (cases "settlementInterval rate" rule: truthy.cases) (simp_all add: defaultedInterval_def)

lemma detector_SOL_pair:
  "\<exists>opp. calculateArbitrageOpportunities [solBinance, solHourly] = Inr [opp]
     \<and> pairOpportunity ''SOL'' (grouped solBinance) (grouped solHourly) = Some opp
     \<and> settlementPeriod1 opp = Some 1 \<and> settlementPeriod2 opp = Some 8"
  by (simp add: eval_detector eval_rates eval_double grouped_def parsedRate_def)

lemma groups_SOL:
  "groupRates [solBinance, solHourly] = Inr [(''SOL'', [grouped solBinance, grouped solHourly])]"
  by (simp add: eval_detector eval_rates grouped_def parsedRate_def)

text \<open>
  C10. Let the grouping step finish, with the groups \<open>groupedRates\<close>, and let the
  detector return the list \<open>out\<close>. An accepted input rate \<open>x\<close> whose
  \<open>settlementInterval\<close> is missing, zero or \<open>NaN\<close> is not dropped by the grouping step:
  its entry is in the group of its symbol with interval 1 when \<open>isHourly\<close> is set and 8
  otherwise, and whatever the pair of that entry with the entry of any other accepted
  rate of the symbol emits, before or after it in the input, is in \<open>out\<close>.
\<close>

theorem defaulted_interval_participates:
  assumes "groupRates rates = Inr groupedRates"
    and "calculateArbitrageOpportunities rates = Inr out"
    and "x \<in> set rates" and "accepted x" and "\<not> truthy (settlementInterval x)"
  shows "settlementInterval (grouped x) = (if isHourly x then 1 else 8)
       \<and> grouped x \<in> set (lookupGroup groupedRates (symbol x))
       \<and> (\<forall>y pre mid post opp. accepted y \<and> symbol y = symbol x \<longrightarrow>
            (rates = pre @ x # mid @ y # post
               \<and> pairOpportunity (symbol x) (grouped x) (grouped y) = Some opp
             \<longrightarrow> opp \<in> set out)
          \<and> (rates = pre @ y # mid @ x # post
               \<and> pairOpportunity (symbol x) (grouped y) (grouped x) = Some opp
             \<longrightarrow> opp \<in> set out))"
proof -
  have i: "settlementInterval (grouped x) = (if isHourly x then 1 else 8)"
    using defaultedInterval_falsy[OF assms(5)] by (simp add: grouped_def groupedEntry_def)
  have g: "grouped x \<in> set (lookupGroup groupedRates (symbol x))"
    unfolding groupRates_lookup[OF assms(1)] using assms(3,4) by simp
  have a: "opp \<in> set out"
    if "accepted y" "symbol y = symbol x" "rates = pre @ x # mid @ y # post"
       "pairOpportunity (symbol x) (grouped x) (grouped y) = Some opp" for y pre mid post opp
    using pair_in_output[OF assms(2) that(3) assms(4) that(1) that(2)[symmetric] that(4)] .
  have b: "opp \<in> set out"
    if "accepted y" "symbol y = symbol x" "rates = pre @ y # mid @ x # post"
       "pairOpportunity (symbol x) (grouped y) (grouped x) = Some opp" for y pre mid post opp
    using pair_in_output[OF assms(2) that(3) that(1) assms(4) that(2)] that(4) that(2) by simp
  from i g a b show ?thesis by blast
qed

theorem defaulted_interval_participates_witness:
  "groupRates [solBinance, solHourly] = Inr [(''SOL'', [grouped solBinance, grouped solHourly])]
   \<and> solHourly \<in> set [solBinance, solHourly] \<and> accepted solHourly
   \<and> \<not> truthy (settlementInterval solHourly)
   \<and> accepted solBinance \<and> \<not> truthy (settlementInterval solBinance)
   \<and> settlementInterval (grouped solHourly) = 1
   \<and> settlementInterval (grouped solBinance) = 8
   \<and> grouped solHourly
       \<in> set (lookupGroup [(''SOL'', [grouped solBinance, grouped solHourly])] ''SOL'')
   \<and> (\<exists>opp. calculateArbitrageOpportunities [solBinance, solHourly] = Inr [opp]
          \<and> pairOpportunity ''SOL'' (grouped solBinance) (grouped solHourly) = Some opp
          \<and> settlementPeriod1 opp = Some 1 \<and> settlementPeriod2 opp = Some 8
          \<and> opp \<in> set [opp])"
proof -
  have h: "solHourly \<in> set [solBinance, solHourly]" "accepted solHourly"
    "\<not> truthy (settlementInterval solHourly)" "accepted solBinance"
    "\<not> truthy (settlementInterval solBinance)" "symbol solBinance = symbol solHourly"
    by (simp_all add: solHourly_def solBinance_def accepted_def)
  have s: "symbol solHourly = ''SOL''" "isHourly solHourly" "\<not> isHourly solBinance"
    by (simp_all add: solHourly_def solBinance_def)
  have b: "settlementInterval (grouped solBinance) = 8"
    by (simp add: grouped_def groupedEntry_def defaultedInterval_def solBinance_def)
  have d: "[solBinance, solHourly] = [] @ solBinance # [] @ solHourly # []" by simp
  from detector_SOL_pair obtain opp where
    o: "calculateArbitrageOpportunities [solBinance, solHourly] = Inr [opp]"
    and p: "pairOpportunity ''SOL'' (grouped solBinance) (grouped solHourly) = Some opp"
    and q: "settlementPeriod1 opp = Some 1" "settlementPeriod2 opp = Some 8"
    by blast
  note t = defaulted_interval_participates[OF groups_SOL o h(1,2,3), unfolded s(1) if_P[OF s(2)]]
  from t[THEN conjunct1] have i: "settlementInterval (grouped solHourly) = 1" .
  from t[THEN conjunct2, THEN conjunct1]
  have g: "grouped solHourly
       \<in> set (lookupGroup [(''SOL'', [grouped solBinance, grouped solHourly])] ''SOL'')" .
  have y: "accepted solBinance \<and> symbol solBinance = ''SOL''"
    by (simp add: solBinance_def accepted_def)
  from t[THEN conjunct2, THEN conjunct2, THEN spec, THEN spec, THEN spec, THEN spec, THEN spec,
      of solBinance "[]" "[]" "[]" opp, THEN mp, OF y, THEN conjunct2, THEN mp, OF conjI[OF d p]]
  have m: "opp \<in> set [opp]" .
  from o p q m have "\<exists>opp. calculateArbitrageOpportunities [solBinance, solHourly] = Inr [opp]
          \<and> pairOpportunity ''SOL'' (grouped solBinance) (grouped solHourly) = Some opp
          \<and> settlementPeriod1 opp = Some 1 \<and> settlementPeriod2 opp = Some 8
          \<and> opp \<in> set [opp]" by blast
  with groups_SOL h(1,2,3,4,5) i b g show ?thesis by (intro conjI)
qed


section \<open>Properties of the normalizers and of the aggregator\<close>

subsection \<open>Evaluation\<close>

lemma okxFundingRatesData_eq: "okxFundingRatesData fetch contracts = List.map_filter fetch contracts"
proof (induction fetch contracts rule: okxFundingRatesData.induct)
  case (1 fetch contracts)
  show ?case
  proof (cases "contracts = []")
    case True
    then show ?thesis by (simp add: List.map_filter_def)
  next
    case False
    have "List.map_filter fetch contracts
        = List.map_filter fetch (take 50 contracts @ drop 50 contracts)" by simp
    also have "\<dots> = List.map_filter fetch (take 50 contracts) @ List.map_filter fetch (drop 50 contracts)"
      unfolding List.map_filter_def by (simp only: filter_append map_append)
    finally show ?thesis using False "1.IH"
      by (subst okxFundingRatesData.simps) simp
  qed
qed

lemmas eval_normalizers = normalizedRates_def binanceRates_def bybitRates_def bitgetRates_def
  okxRates_def okxUsdtContracts_def okxFundingRatesData_eq okxRate_def hyperliquidRates_def
  gateRates_def binanceIntervals_def bybitIntervals_def bitgetIntervals_def intervalOf_def
  rateRecord_def endsWith_def beforeDash_def List.map_filter_def Let_def parseInt_def
  jsonNumber_def

lemma set_map_filter: "set (List.map_filter f xs) = {y. \<exists>x \<in> set xs. f x = Some y}"
  by (force simp: List.map_filter_def)

lemma scenario_normalized:
  "concat (normalizedRates scenarioResponses)
     = [btcBinance, btcBybit, ethOKX, ethHyperLiquid, ethGate]"
  by (simp add: eval_normalizers eval_double scenarioResponses_def
      btcBinance_def btcBybit_def ethOKX_def ethHyperLiquid_def ethGate_def)

lemma scenario_allRates:
  "allRates scenarioResponses = [btcBinance, btcBybit, ethOKX, ethHyperLiquid, ethGate]"
  unfolding allRates_def scenario_normalized
  by (simp add: validRate_def eval_double
      btcBinance_def btcBybit_def ethOKX_def ethHyperLiquid_def ethGate_def)


subsection \<open>The flag of a special interval\<close>

lemma rateRecord_special: "special_ok (rateRecord s e r (i \<noteq> 8) i)"
  by (simp add: special_ok_def rateRecord_def)

lemma binanceRates_special: "r \<in> set (binanceRates items intervals) \<Longrightarrow> special_ok r"
  by (auto simp: binanceRates_def Let_def rateRecord_special)

lemma bybitRates_special: "r \<in> set (bybitRates items intervals) \<Longrightarrow> special_ok r"
  by (auto simp: bybitRates_def Let_def rateRecord_special)

lemma bitgetRates_special: "r \<in> set (bitgetRates items intervals) \<Longrightarrow> special_ok r"
  by (auto simp: bitgetRates_def Let_def rateRecord_special)

lemma hyperliquidRates_special: "r \<in> set (hyperliquidRates d) \<Longrightarrow> special_ok r"
  by (auto simp: hyperliquidRates_def special_ok_def rateRecord_def split: prod.splits if_splits)

lemma okxRate_special: "okxRate item = Some r \<Longrightarrow> special_ok r"
  by (auto simp: okxRate_def Let_def special_ok_def split: if_splits number.splits)

lemma okxRates_special: "r \<in> set (okxRates tickers fetch) \<Longrightarrow> special_ok r"
  by (auto simp: okxRates_def set_map_filter okxRate_special)

lemma gateRates_special: "r \<in> set (gateRates contracts) \<Longrightarrow> special_ok r"
  by (auto simp: gateRates_def set_map_filter Let_def rateRecord_special split: option.splits)

text \<open>
  C8. Every rate record that one of the six normalizers emits has \<open>isSpecialInterval\<close>
  true if and only if its \<open>settlementInterval\<close> is not 8.
\<close>

theorem special_interval_flag:
  "\<forall>r \<in> set (concat (normalizedRates resp)).
     isSpecialInterval r \<longleftrightarrow> settlementInterval r \<noteq> Some (Num 8)"
proof
  fix r assume "r \<in> set (concat (normalizedRates resp))"
  then have "special_ok r"
    by (auto simp: normalizedRates_def binanceRates_special bybitRates_special bitgetRates_special
          okxRates_special hyperliquidRates_special gateRates_special
        split: array_response.splits option.splits)
  then show "isSpecialInterval r \<longleftrightarrow> settlementInterval r \<noteq> Some (Num 8)"
    by (simp add: special_ok_def)
qed

theorem special_interval_flag_witness:
  "ethHyperLiquid \<in> set (concat (normalizedRates scenarioResponses))
   \<and> isSpecialInterval ethHyperLiquid \<and> settlementInterval ethHyperLiquid = Some (Num 1)
   \<and> ethOKX \<in> set (concat (normalizedRates scenarioResponses))
   \<and> \<not> isSpecialInterval ethOKX \<and> settlementInterval ethOKX = Some (Num 8)"
proof -
  have m: "ethHyperLiquid \<in> set (concat (normalizedRates scenarioResponses))"
    "ethOKX \<in> set (concat (normalizedRates scenarioResponses))"
    unfolding scenario_normalized by simp_all
  have v: "settlementInterval ethHyperLiquid = Some (Num 1)" "settlementInterval ethOKX = Some (Num 8)"
    by (simp_all add: ethHyperLiquid_def ethOKX_def)
  from special_interval_flag[of scenarioResponses] m v
  have "isSpecialInterval ethHyperLiquid" "\<not> isSpecialInterval ethOKX" by auto
  with m v show ?thesis by simp
qed

subsection \<open>The filter of the merged list\<close>

lemma calculate_Nil: "calculateArbitrageOpportunities [] = Inr []"
  by (simp add: calculateArbitrageOpportunities_def emittedOpportunities_def groupRates_def
        objectKeys_def sortOpportunities_def)












text \<open>The text is printed of the number the multiplication leaves: \<^verbatim>\<open>0.0000005 * 100\<close>
  is a little less than \<open>0.00005\<close> and prints as \<^verbatim>\<open>0.0000\<close>.\<close>

lemma toFixed4_half:
  "numTimes (parseFloat (Num 0.0000005)) 100 = Num (1844674407370955 / 2 ^ 65)"
  "toFixed4 (numTimes (parseFloat (Num 0.0000005)) 100) = Num 0"
  by (simp_all add: eval_double)







subsection \<open>A refresh that finds nothing, and one that throws\<close>

lemma allFailed_normalized: "allFailed resp \<Longrightarrow> normalizedRates resp = [[], [], [], [], [], []]"
  by (simp add: allFailed_def normalizedRates_def)

lemma allFailed_fetch: "allFailed resp \<Longrightarrow> fetchAllExchangeData resp = emptySuccess"
  by (simp add: fetchAllExchangeData_def allFailed_normalized allRates_def calculate_Nil
        emptySuccess_def Let_def)
     (simp add: allFailed_def iterationThrows_def)

lemma fetch_success:
  "success (fetchAllExchangeData resp) \<longleftrightarrow>
     \<not> iterationThrows resp \<and> (\<exists>out. calculateArbitrageOpportunities (allRates resp) = Inr out)"
  by (auto simp: fetchAllExchangeData_def caughtResult_def Let_def split: sum.splits)

lemma fetch_success_fields:
  assumes "success (fetchAllExchangeData resp)"
  shows "\<exists>d opps. data (fetchAllExchangeData resp) = Some d
           \<and> calculateArbitrageOpportunities d = Inr opps"
  using assms
  by (auto simp: fetchAllExchangeData_def caughtResult_def Let_def split: sum.splits if_splits)

lemma inheritedName_allRates: "allRates inheritedNameResponses = [constructorRate]"
  by (simp add: allRates_def validRate_def eval_normalizers eval_double
        inheritedNameResponses_def noResponses_def constructorRate_def)

text \<open>An asset of HyperLiquid with the name of an inherited member makes the detector
  throw, and the refresh report failure.\<close>

lemma inheritedName_fetch: "fetchAllExchangeData inheritedNameResponses = caughtResult"
proof -
  have "calculateArbitrageOpportunities [constructorRate] = Inl TypeError"
    by (simp add: eval_detector constructorRate_def eval_double)
  moreover have "\<not> iterationThrows inheritedNameResponses"
    by (simp add: iterationThrows_def inheritedNameResponses_def noResponses_def)
  ultimately show ?thesis
    by (simp add: fetchAllExchangeData_def inheritedName_allRates Let_def)
qed

lemma handler_stale_empty:
  assumes "allFailed resp" "\<not> cacheFresh s t"
  shows "handler s t resp now =
     (\<lparr>status = 200, body = emptySnapshot now\<rparr>,
      s\<lparr>cachedData := Some (emptySnapshot now), lastCacheTime := t\<rparr>)"
  using assms(2)
  by (auto simp: handler_def handlerResume_def allFailed_fetch[OF assms(1)] emptySuccess_def
        emptySnapshot_def snapshot_def calculate_Nil cacheFresh_def Let_def split: option.splits)

lemma scenario_detector:
  "calculateArbitrageOpportunities [btcBinance, btcBybit, ethOKX, ethHyperLiquid, ethGate]
     = Inr rankedOutput"
  by (simp add: eval_detector eval_rates eval_double rankedOutput_def)

lemma scenario_fetch:
  "success (fetchAllExchangeData scenarioResponses)"
  "data (fetchAllExchangeData scenarioResponses)
     = Some [btcBinance, btcBybit, ethOKX, ethHyperLiquid, ethGate]"
  by (simp_all add: fetchAllExchangeData_def scenario_allRates scenario_detector Let_def)
     (simp_all add: scenarioResponses_def iterationThrows_def)

section \<open>Properties of the snapshot cache\<close>

subsection \<open>The handler, the machine and the worked states\<close>

lemma run_Nil: "run m [] = m" by (simp add: run_def)

lemma run_Cons: "run m (e # es) = run (step m e) es" by (simp add: run_def)

lemma handler_fresh:
  "cachedData s = Some cached \<Longrightarrow> t - lastCacheTime s < CACHE_DURATION \<Longrightarrow>
   handler s t resp now = (\<lparr>status = 200, body = cached\<rparr>, s)"
  by (simp add: handler_def)

lemma handler_stale:
  "\<not> cacheFresh s t \<Longrightarrow> handler s t resp now = handlerResume s t (fetchAllExchangeData resp) now"
  by (auto simp: handler_def cacheFresh_def split: option.splits)

lemma handlerResume_success:
  "success (fetchAllExchangeData resp) \<Longrightarrow> data (fetchAllExchangeData resp) = Some d \<Longrightarrow>
   calculateArbitrageOpportunities d = Inr opps \<Longrightarrow>
   handlerResume s t (fetchAllExchangeData resp) now =
     (\<lparr>status = 200, body = snapshot d opps now\<rparr>,
      s\<lparr>cachedData := Some (snapshot d opps now), lastCacheTime := t\<rparr>)"
  by (simp add: handlerResume_def Let_def)

lemma handlerResume_failure:
  "\<not> success (fetchAllExchangeData resp) \<Longrightarrow>
   handlerResume s t (fetchAllExchangeData resp) now = (\<lparr>status = 500, body = failureBody\<rparr>, s)"
  by (simp add: handlerResume_def split: option.splits)

lemma servedOnce_snapshot:
  "servedOnce =
     \<lparr>cachedData = Some (snapshot [btcBinance, btcBybit, ethOKX, ethHyperLiquid, ethGate]
                             rankedOutput 5),
      lastCacheTime = 0\<rparr>"
  by (simp add: servedOnce_def handler_def
        handlerResume_success[OF scenario_fetch scenario_detector] initialServer_def)

lemma servedMachine_eval:
  "servedMachine =
     \<lparr>cachedData = Some (snapshot [btcBinance, btcBybit, ethOKX, ethHyperLiquid, ethGate]
                             rankedOutput 5),
      lastCacheTime = 0, inFlight = [], upstreamCycles = 1\<rparr>"
  by (simp add: servedMachine_def run_def initialMachine_def cacheFresh_def
        handlerResume_success[OF scenario_fetch scenario_detector])

lemma socketServedOnce_eval:
  "socketServedOnce =
     \<lparr>cachedData = Some (snapshot [btcBinance, btcBybit, ethOKX, ethHyperLiquid, ethGate]
                             rankedOutput 5),
      lastCacheTime = 0\<rparr>"
  by (simp add: socketServedOnce_def getFundingRates_def socketRefresh_def handler_def
        handlerResume_success[OF scenario_fetch scenario_detector] initialServer_def)

text \<open>
  C3, as the code has it. When every fetch returns no data the refresh does not report
  failure: it returns a successful result with an empty rate list and no opportunities.
  The timer callback stores that result in the cache whatever the cache held, and the
  pull handler stores the empty snapshot whenever the cache is absent or stale.
\<close>

theorem total_failure_refresh:
  "allFailed resp \<longrightarrow>
      fetchAllExchangeData resp = emptySuccess
      \<and> (\<forall>s now. snd (broadcastData s resp now) = s\<lparr>cachedData := Some emptySuccess, lastCacheTime := now\<rparr>)
      \<and> (\<forall>s t now. \<not> cacheFresh s t \<longrightarrow>
            handler s t resp now =
              (\<lparr>status = 200, body = emptySnapshot now\<rparr>,
               s\<lparr>cachedData := Some (emptySnapshot now), lastCacheTime := t\<rparr>))"
  by (simp add: allFailed_fetch broadcastData_def broadcastResume_def handler_stale_empty)

theorem total_failure_refresh_witness:
  "allFailed noResponses
   \<and> fetchAllExchangeData noResponses = emptySuccess
   \<and> snd (broadcastData servedOnce noResponses 30000)
       = servedOnce\<lparr>cachedData := Some emptySuccess, lastCacheTime := 30000\<rparr>
   \<and> \<not> cacheFresh servedOnce 60000
   \<and> handler servedOnce 60000 noResponses 60005
       = (\<lparr>status = 200, body = emptySnapshot 60005\<rparr>,
          servedOnce\<lparr>cachedData := Some (emptySnapshot 60005), lastCacheTime := 60000\<rparr>)"
proof -
  have a: "allFailed noResponses" by (simp add: allFailed_def noResponses_def)
  have s: "\<not> cacheFresh servedOnce 60000"
    by (simp add: cacheFresh_def servedOnce_snapshot CACHE_DURATION_def)
  note t = total_failure_refresh[of noResponses, THEN mp, OF a]
  from t[THEN conjunct1] have f: "fetchAllExchangeData noResponses = emptySuccess" .
  from t[THEN conjunct2, THEN conjunct1, THEN spec, THEN spec, of servedOnce 30000]
  have b: "snd (broadcastData servedOnce noResponses 30000)
       = servedOnce\<lparr>cachedData := Some emptySuccess, lastCacheTime := 30000\<rparr>" .
  from t[THEN conjunct2, THEN conjunct2, THEN spec, THEN spec, THEN spec, THEN mp, OF s, of 60005]
  have h: "handler servedOnce 60000 noResponses 60005
       = (\<lparr>status = 200, body = emptySnapshot 60005\<rparr>,
          servedOnce\<lparr>cachedData := Some (emptySnapshot 60005), lastCacheTime := 60000\<rparr>)" .
  from a f b s h show ?thesis by (intro conjI)
qed

text \<open>
  C3 as stated fails: with every fetch failed the refresh reports success, and the
  snapshot of five rates cached before it is replaced by an empty one, by the timer
  callback and, once it is a minute old, by the pull handler.
\<close>

theorem total_failure_counterexample:
  "allFailed noResponses
   \<and> success (fetchAllExchangeData noResponses)
   \<and> data (fetchAllExchangeData noResponses) = Some []
   \<and> map_option data (cachedData servedOnce)
       = Some (Some [btcBinance, btcBybit, ethOKX, ethHyperLiquid, ethGate])
   \<and> map_option data (cachedData (snd (broadcastData servedOnce noResponses 30000))) = Some (Some [])
   \<and> map_option data (cachedData (snd (handler servedOnce 60000 noResponses 60005))) = Some (Some [])"
proof -
  have a: "allFailed noResponses" by (simp add: allFailed_def noResponses_def)
  have s: "\<not> cacheFresh servedOnce 60000"
    by (simp add: cacheFresh_def servedOnce_snapshot CACHE_DURATION_def)
  have f: "success (fetchAllExchangeData noResponses)"
    "data (fetchAllExchangeData noResponses) = Some []"
    by (simp_all add: allFailed_fetch[OF a] emptySuccess_def)
  have c: "map_option data (cachedData servedOnce)
       = Some (Some [btcBinance, btcBybit, ethOKX, ethHyperLiquid, ethGate])"
    by (simp add: servedOnce_snapshot snapshot_def)
  have b: "map_option data (cachedData (snd (broadcastData servedOnce noResponses 30000))) = Some (Some [])"
    by (simp add: broadcastData_def broadcastResume_def f)
  have h: "map_option data (cachedData (snd (handler servedOnce 60000 noResponses 60005))) = Some (Some [])"
    unfolding handler_stale_empty[OF a s] by (simp add: emptySnapshot_def)
  from a f c b h show ?thesis by simp
qed

subsection \<open>Requests one after the other\<close>

lemma handler_as_steps:
  assumes "inFlight m = []" "\<not> cacheFresh m t"
  shows "run m [Request t, Resolve 0 resp now]
       = (snd (handler m t resp now))\<lparr>upstreamCycles := upstreamCycles m + 1\<rparr>"
proof (cases "success (fetchAllExchangeData resp)")
  case True
  from fetch_success_fields[OF True] obtain d opps where
    d: "data (fetchAllExchangeData resp) = Some d" "calculateArbitrageOpportunities d = Inr opps"
    by blast
  from assms show ?thesis
    by (simp add: run_def handler_stale handlerResume_success[OF True d])
next
  case False
  from assms show ?thesis
    by (simp add: run_def handler_stale handlerResume_failure[OF False])
qed

lemma two_requests:
  assumes "inFlight m = []" "t2 - t1 < CACHE_DURATION" "success (fetchAllExchangeData resp)"
  shows "upstreamCycles (run m [Request t1, Resolve 0 resp now, Request t2]) \<le> upstreamCycles m + 1"
proof (cases "cacheFresh m t1")
  case True
  then have "run m [Request t1, Resolve 0 resp now, Request t2] = step m (Request t2)"
    using assms(1) by (simp add: run_def)
  then show ?thesis by simp
next
  case False
  from fetch_success_fields[OF assms(3)] obtain d opps where
    d: "data (fetchAllExchangeData resp) = Some d" "calculateArbitrageOpportunities d = Inr opps"
    by blast
  define m1 where "m1 = step m (Request t1)"
  have m1: "m1 = m\<lparr>inFlight := [HandlerCall t1], upstreamCycles := upstreamCycles m + 1\<rparr>"
    using False assms(1) by (simp add: m1_def)
  define m2 where "m2 = step m1 (Resolve 0 resp now)"
  have m2: "m2 = m\<lparr>cachedData := Some (snapshot d opps now), lastCacheTime := t1,
                    inFlight := [], upstreamCycles := upstreamCycles m + 1\<rparr>"
    unfolding m2_def by (simp add: m1 handlerResume_success[OF assms(3) d])
  have "cacheFresh m2 t2" using assms(2) by (simp add: m2 cacheFresh_def)
  then have "step m2 (Request t2) = m2" by simp
  moreover have "run m [Request t1, Resolve 0 resp now, Request t2] = step m2 (Request t2)"
    unfolding m2_def m1_def by (simp only: run_Cons run_Nil)
  ultimately have "run m [Request t1, Resolve 0 resp now, Request t2] = m2" by simp
  then show ?thesis by (simp add: m2)
qed

lemma socket_fresh:
  "cachedData sock = Some cached \<Longrightarrow> t - lastCacheTime sock < CACHE_DURATION \<Longrightarrow>
   getFundingRates sock api t apiTime resp apiNow emitTime
     = (FundingRates (cached\<lparr>lastUpdate := Some emitTime\<rparr>), sock, api)"
  by (simp add: getFundingRates_def)

lemma socket_stale:
  "cachedData sock = None \<or> t - lastCacheTime sock > CACHE_DURATION \<Longrightarrow>
   getFundingRates sock api t apiTime resp apiNow emitTime
     = (let (response, api') = handler api apiTime resp apiNow
        in if status response = 200
           then (FundingRates ((body response)\<lparr>lastUpdate := Some emitTime\<rparr>),
                 sock\<lparr>cachedData := Some (body response), lastCacheTime := t\<rparr>, api')
           else (ErrorEvent, sock, api'))"
  by (auto simp: getFundingRates_def socketRefresh_def split: option.splits prod.splits)

subsection \<open>The contract of the cache\<close>

text \<open>
  C6, as the code has it. A pull request that finds a cached snapshot less than 60
  seconds old is answered with it and starts no upstream cycle. One that finds the cache
  absent or stale runs a refresh; when the refresh succeeds the new snapshot, of the
  rates of the refresh and the opportunities the detector returns for them, replaces the
  cache, stamped with the time the request came in, and is returned; when it fails the
  cache is left as it was and the answer is an error. Two pull requests less than 60
  seconds apart, with nothing else in between, start at most one upstream cycle when the
  first has been answered, successfully, before the second arrives. A socket request
  that finds the socket's cached copy less than 60 seconds old sends it on without
  calling the pull endpoint; one that finds no copy, or a copy more than 60 seconds old,
  calls the pull endpoint and keeps the answer when it is OK.
\<close>

theorem snapshot_cache_contract:
  "(\<forall>(s::server) t resp now cached.
       cachedData s = Some cached \<and> t - lastCacheTime s < CACHE_DURATION \<longrightarrow>
       handler s t resp now = (\<lparr>status = 200, body = cached\<rparr>, s))
   \<and> (\<forall>(s::server) t resp now.
         \<not> cacheFresh s t \<and> success (fetchAllExchangeData resp) \<longrightarrow>
         (\<exists>d opps. data (fetchAllExchangeData resp) = Some d
            \<and> calculateArbitrageOpportunities d = Inr opps
            \<and> handler s t resp now =
                (\<lparr>status = 200, body = snapshot d opps now\<rparr>,
                 s\<lparr>cachedData := Some (snapshot d opps now), lastCacheTime := t\<rparr>)))
   \<and> (\<forall>(s::server) t resp now.
         \<not> cacheFresh s t \<and> \<not> success (fetchAllExchangeData resp) \<longrightarrow>
         handler s t resp now = (\<lparr>status = 500, body = failureBody\<rparr>, s))
   \<and> (\<forall>m t. cacheFresh m t \<longrightarrow> step m (Request t) = m)
   \<and> (\<forall>m t1 t2 resp now.
         inFlight m = [] \<and> t2 - t1 < CACHE_DURATION \<and> success (fetchAllExchangeData resp) \<longrightarrow>
         upstreamCycles (run m [Request t1, Resolve 0 resp now, Request t2]) \<le> upstreamCycles m + 1)
   \<and> (\<forall>sock api t apiTime resp apiNow emitTime cached.
         cachedData sock = Some cached \<and> t - lastCacheTime sock < CACHE_DURATION \<longrightarrow>
         getFundingRates sock api t apiTime resp apiNow emitTime
           = (FundingRates (cached\<lparr>lastUpdate := Some emitTime\<rparr>), sock, api))
   \<and> (\<forall>sock api t apiTime resp apiNow emitTime.
         cachedData sock = None \<or> t - lastCacheTime sock > CACHE_DURATION \<longrightarrow>
         getFundingRates sock api t apiTime resp apiNow emitTime
           = (let (response, api') = handler api apiTime resp apiNow
              in if status response = 200
                 then (FundingRates ((body response)\<lparr>lastUpdate := Some emitTime\<rparr>),
                       sock\<lparr>cachedData := Some (body response), lastCacheTime := t\<rparr>, api')
                 else (ErrorEvent, sock, api')))"
proof -
  have a: "handler s t resp now = (\<lparr>status = 200, body = cached\<rparr>, s)"
    if "cachedData s = Some cached \<and> t - lastCacheTime s < CACHE_DURATION"
    for s :: server and t resp now cached
    using that by (simp add: handler_fresh)
  have b: "\<exists>d opps. data (fetchAllExchangeData resp) = Some d
            \<and> calculateArbitrageOpportunities d = Inr opps
            \<and> handler s t resp now =
                (\<lparr>status = 200, body = snapshot d opps now\<rparr>,
                 s\<lparr>cachedData := Some (snapshot d opps now), lastCacheTime := t\<rparr>)"
    if "\<not> cacheFresh s t \<and> success (fetchAllExchangeData resp)" for s :: server and t resp now
  proof -
    from that have st: "\<not> cacheFresh s t" and su: "success (fetchAllExchangeData resp)" by simp_all
    from fetch_success_fields[OF su] obtain d opps where
      d: "data (fetchAllExchangeData resp) = Some d" "calculateArbitrageOpportunities d = Inr opps"
      by blast
    from handlerResume_success[OF su d] handler_stale[OF st] d show ?thesis by simp
  qed
  have c: "handler s t resp now = (\<lparr>status = 500, body = failureBody\<rparr>, s)"
    if "\<not> cacheFresh s t \<and> \<not> success (fetchAllExchangeData resp)" for s :: server and t resp now
    using that by (simp add: handler_stale handlerResume_failure)
  have d: "step m (Request t) = m" if "cacheFresh m t" for m t
    using that by simp
  have e: "upstreamCycles (run m [Request t1, Resolve 0 resp now, Request t2]) \<le> upstreamCycles m + 1"
    if "inFlight m = [] \<and> t2 - t1 < CACHE_DURATION \<and> success (fetchAllExchangeData resp)"
    for m t1 t2 resp now
    using that two_requests by blast
  have f: "getFundingRates sock api t apiTime resp apiNow emitTime
           = (FundingRates (cached\<lparr>lastUpdate := Some emitTime\<rparr>), sock, api)"
    if "cachedData sock = Some cached \<and> t - lastCacheTime sock < CACHE_DURATION"
    for sock api t apiTime resp apiNow emitTime cached
    using that by (simp add: socket_fresh)
  note g = socket_stale
  show ?thesis
    apply (intro conjI allI impI)
    subgoal by (rule a)
    subgoal by (rule b)
    subgoal by (rule c)
    subgoal by (rule d)
    subgoal by (rule e)
    subgoal by (rule f)
    subgoal by (rule g)
    done
qed

theorem snapshot_cache_contract_witness:
  "cachedData servedOnce
     = Some (snapshot [btcBinance, btcBybit, ethOKX, ethHyperLiquid, ethGate] rankedOutput 5)
   \<and> 30000 - lastCacheTime servedOnce < CACHE_DURATION
   \<and> handler servedOnce 30000 noResponses 30001
       = (\<lparr>status = 200,
           body = snapshot [btcBinance, btcBybit, ethOKX, ethHyperLiquid, ethGate] rankedOutput 5\<rparr>,
          servedOnce)
   \<and> \<not> cacheFresh initialServer 0
   \<and> success (fetchAllExchangeData scenarioResponses)
   \<and> handler initialServer 0 scenarioResponses 5
       = (\<lparr>status = 200,
           body = snapshot [btcBinance, btcBybit, ethOKX, ethHyperLiquid, ethGate] rankedOutput 5\<rparr>,
          servedOnce)
   \<and> \<not> success (fetchAllExchangeData binanceObjectResponses)
   \<and> handler initialServer 0 binanceObjectResponses 5
       = (\<lparr>status = 500, body = failureBody\<rparr>, initialServer)
   \<and> inFlight initialMachine = [] \<and> 59999 - 0 < CACHE_DURATION
   \<and> upstreamCycles (run initialMachine [Request 0, Resolve 0 scenarioResponses 5, Request 59999]) \<le> 1
   \<and> cachedData socketServedOnce
        = Some (snapshot [btcBinance, btcBybit, ethOKX, ethHyperLiquid, ethGate] rankedOutput 5)
   \<and> 59999 - lastCacheTime socketServedOnce < CACHE_DURATION
   \<and> getFundingRates socketServedOnce servedOnce 59999 60000 noResponses 60001 60002
       = (FundingRates
            (snapshot [btcBinance, btcBybit, ethOKX, ethHyperLiquid, ethGate] rankedOutput 60002),
          socketServedOnce, servedOnce)
   \<and> cachedData initialServer = None
   \<and> getFundingRates initialServer initialServer 0 0 scenarioResponses 5 6
       = (FundingRates
            (snapshot [btcBinance, btcBybit, ethOKX, ethHyperLiquid, ethGate] rankedOutput 6),
          socketServedOnce, servedOnce)"
proof -
  let ?d = "[btcBinance, btcBybit, ethOKX, ethHyperLiquid, ethGate]"
  note t = snapshot_cache_contract
  have h1: "cachedData servedOnce = Some (snapshot ?d rankedOutput 5)
      \<and> 30000 - lastCacheTime servedOnce < CACHE_DURATION"
    by (simp add: servedOnce_snapshot CACHE_DURATION_def)
  from t[THEN conjunct1, THEN spec, THEN spec, THEN spec, THEN spec, THEN spec, THEN mp, OF h1]
  have c1: "handler servedOnce 30000 noResponses 30001
      = (\<lparr>status = 200, body = snapshot ?d rankedOutput 5\<rparr>, servedOnce)" .
  have h2: "\<not> cacheFresh initialServer 0 \<and> success (fetchAllExchangeData scenarioResponses)"
    by (simp add: cacheFresh_def initialServer_def scenario_fetch)
  from t[THEN conjunct2, THEN conjunct1, THEN spec, THEN spec, THEN spec, THEN spec, THEN mp, OF h2, of 5]
  have c2: "handler initialServer 0 scenarioResponses 5
      = (\<lparr>status = 200, body = snapshot ?d rankedOutput 5\<rparr>, servedOnce)"
    by (auto simp: scenario_fetch scenario_detector servedOnce_snapshot initialServer_def)
  have h3: "\<not> cacheFresh initialServer 0 \<and> \<not> success (fetchAllExchangeData binanceObjectResponses)"
    by (simp add: cacheFresh_def initialServer_def fetch_success iterationThrows_def
          binanceObjectResponses_def)
  from t[THEN conjunct2, THEN conjunct2, THEN conjunct1, THEN spec, THEN spec, THEN spec, THEN spec, THEN mp, OF h3]
  have c3: "handler initialServer 0 binanceObjectResponses 5 = (\<lparr>status = 500, body = failureBody\<rparr>, initialServer)" .
  have h5: "inFlight initialMachine = [] \<and> 59999 - 0 < CACHE_DURATION
      \<and> success (fetchAllExchangeData scenarioResponses)"
    by (simp add: initialMachine_def CACHE_DURATION_def scenario_fetch)
  from t[THEN conjunct2, THEN conjunct2, THEN conjunct2, THEN conjunct2, THEN conjunct1,
         THEN spec, THEN spec, THEN spec, THEN spec, THEN spec, THEN mp, OF h5, of 5]
  have c5: "upstreamCycles (run initialMachine [Request 0, Resolve 0 scenarioResponses 5, Request 59999]) \<le> 1"
    by (simp add: initialMachine_def)
  have h6: "cachedData socketServedOnce = Some (snapshot ?d rankedOutput 5)
      \<and> 59999 - lastCacheTime socketServedOnce < CACHE_DURATION"
    by (simp add: socketServedOnce_eval CACHE_DURATION_def)
  from t[THEN conjunct2, THEN conjunct2, THEN conjunct2, THEN conjunct2, THEN conjunct2, THEN conjunct1,
         THEN spec, THEN spec, THEN spec, THEN spec, THEN spec, THEN spec, THEN spec, THEN spec, THEN mp, OF h6]
  have c6: "getFundingRates socketServedOnce servedOnce 59999 60000 noResponses 60001 60002
       = (FundingRates (snapshot ?d rankedOutput 60002), socketServedOnce, servedOnce)"
    by (simp add: snapshot_def)
  have h7: "cachedData initialServer = None \<or> 0 - lastCacheTime initialServer > CACHE_DURATION"
    by (simp add: initialServer_def)
  from t[THEN conjunct2, THEN conjunct2, THEN conjunct2, THEN conjunct2, THEN conjunct2, THEN conjunct2,
         THEN spec, THEN spec, THEN spec, THEN spec, THEN spec, THEN spec, THEN spec, THEN mp, OF h7,
         of initialServer 0 scenarioResponses 5 6]
  have c7: "getFundingRates initialServer initialServer 0 0 scenarioResponses 5 6
       = (FundingRates (snapshot ?d rankedOutput 6), socketServedOnce, servedOnce)"
    by (simp add: c2[unfolded] handler_def handlerResume_success[OF scenario_fetch scenario_detector]
          initialServer_def servedOnce_snapshot socketServedOnce_eval snapshot_def)
  from h1 c1 h2 c2 h3 c3 h5 c5 h6 c6 h7 c7 show ?thesis
    by (simp add: initialServer_def)
qed

text \<open>
  C6 as stated fails in its last part: two pull requests one millisecond apart, the
  second arriving while the first waits for its rates, start two upstream cycles; and so
  do two requests ten milliseconds apart when the refresh of the first fails.
\<close>

theorem snapshot_cache_counterexample:
  "upstreamCycles (run initialMachine [Request 0, Request 1]) = 2
   \<and> (1::int) - 0 < CACHE_DURATION
   \<and> \<not> success (fetchAllExchangeData binanceObjectResponses)
   \<and> upstreamCycles (run initialMachine [Request 0, Resolve 0 binanceObjectResponses 5, Request 10]) = 2"
  by (simp add: run_def initialMachine_def cacheFresh_def CACHE_DURATION_def fetch_success
        iterationThrows_def handlerResume_failure binanceObjectResponses_def)

subsection \<open>Refreshes in flight\<close>

lemma requests_absent:
  assumes "cachedData m = None"
  shows "cachedData (run m (map Request ts)) = None
       \<and> inFlight (run m (map Request ts)) = inFlight m @ map HandlerCall ts
       \<and> upstreamCycles (run m (map Request ts)) = upstreamCycles m + length ts"
  using assms
proof (induction ts arbitrary: m)
  case Nil
  then show ?case by (simp add: run_Nil)
next
  case (Cons t ts)
  define m1 where "m1 = step m (Request t)"
  from Cons.prems have s: "m1 = m\<lparr>inFlight := inFlight m @ [HandlerCall t], upstreamCycles := upstreamCycles m + 1\<rparr>"
    by (simp add: m1_def cacheFresh_def)
  then have "cachedData m1 = None" using Cons.prems by simp
  from Cons.IH[OF this] have "cachedData (run m1 (map Request ts)) = None
       \<and> inFlight (run m1 (map Request ts)) = inFlight m @ HandlerCall t # map HandlerCall ts
       \<and> upstreamCycles (run m1 (map Request ts)) = upstreamCycles m + length (t # ts)"
    by (simp add: s)
  then show ?case unfolding list.map run_Cons m1_def[symmetric] by simp
qed

text \<open>
  C9, as the code has it. Nothing limits the refreshes in flight. From the start, with
  no snapshot cached, every request of a sequence starts a refresh of its own and all of
  them wait together; in any state a request that finds the cache absent or stale adds a
  refresh to those in flight, and so does every firing of the timer. Only a request that
  finds the cache fresh starts none.
\<close>

theorem no_single_flight:
  "(\<forall>ts. inFlight (run initialMachine (map Request ts)) = map HandlerCall ts
         \<and> upstreamCycles (run initialMachine (map Request ts)) = length ts)
   \<and> (\<forall>m t. \<not> cacheFresh m t \<longrightarrow>
         inFlight (step m (Request t)) = inFlight m @ [HandlerCall t]
         \<and> upstreamCycles (step m (Request t)) = upstreamCycles m + 1)
   \<and> (\<forall>m. inFlight (step m Timer) = inFlight m @ [BroadcastCall]
         \<and> upstreamCycles (step m Timer) = upstreamCycles m + 1)
   \<and> (\<forall>m t. cacheFresh m t \<longrightarrow> step m (Request t) = m)"
proof -
  have "cachedData initialMachine = None" "inFlight initialMachine = []"
    "upstreamCycles initialMachine = 0"
    by (simp_all add: initialMachine_def)
  with requests_absent[of initialMachine] show ?thesis by simp
qed

theorem no_single_flight_witness:
  "inFlight (run initialMachine (map Request [0, 1])) = [HandlerCall 0, HandlerCall 1]
   \<and> upstreamCycles (run initialMachine (map Request [0, 1])) = 2
   \<and> \<not> cacheFresh initialMachine 7
   \<and> inFlight (step initialMachine (Request 7)) = [HandlerCall 7]
   \<and> cacheFresh servedMachine 10
   \<and> step servedMachine (Request 10) = servedMachine"
proof -
  have a: "\<not> cacheFresh initialMachine 7" by (simp add: cacheFresh_def initialMachine_def)
  have b: "cacheFresh servedMachine 10"
    by (simp add: cacheFresh_def servedMachine_eval CACHE_DURATION_def)
  have i: "inFlight initialMachine = []" by (simp add: initialMachine_def)
  note t = no_single_flight
  from t[THEN conjunct1, THEN spec, of "[0, 1]"]
  have c: "inFlight (run initialMachine (map Request [0, 1])) = [HandlerCall 0, HandlerCall 1]"
    "upstreamCycles (run initialMachine (map Request [0, 1])) = 2" by simp_all
  from t[THEN conjunct2, THEN conjunct1, THEN spec, THEN spec, THEN mp, OF a] i
  have d: "inFlight (step initialMachine (Request 7)) = [HandlerCall 7]" by simp
  from t[THEN conjunct2, THEN conjunct2, THEN conjunct2, THEN spec, THEN spec, THEN mp, OF b]
  have e: "step servedMachine (Request 10) = servedMachine" .
  from a b c d e show ?thesis by simp
qed

text \<open>
  C9 as stated fails: after two requests and one firing of the timer, none of them
  answered yet, three refreshes are in flight.
\<close>

theorem no_single_flight_counterexample:
  "length (inFlight (run initialMachine [Request 0, Request 1, Timer])) = 3
   \<and> upstreamCycles (run initialMachine [Request 0, Request 1, Timer]) = 3"
  by (simp add: run_def initialMachine_def cacheFresh_def)


end
